theory Spec2Isabelle
  imports Complex_Main "HOL-Library.Sublist"
begin

section \<open>Python values and built-ins used by the billing code\<close>

text \<open>
  Amounts, prices and quantities are Python floats in the source. In the ledger of the
  reconciling variant they are modelled as real numbers: sums, products and comparisons
  are exact, and the rounding of binary floating point is outside that part of the model.
  The inventory movements and the ledger of \<^verbatim>\<open>inventory_billing_app.py\<close> are modelled on
  binary floating point itself, with its rounding, its infinities and NaN. Dates are
  carried as the text that \<^verbatim>\<open>date.isoformat()\<close> yields. A dict handed to the ledger is a
  record whose fields are options: \<open>None\<close> is an absent key, \<open>Some v\<close> a key bound to a value
  of the documented type.
\<close>

datatype error = KeyError string | IntegrityError string | OperationalError string

text \<open>\<^verbatim>\<open>d.get(k, default)\<close> on an optional field.\<close>

definition get_or :: "'a \<Rightarrow> 'a option \<Rightarrow> 'a" where
  "get_or dflt v = (case v of None \<Rightarrow> dflt | Some x \<Rightarrow> x)"

text \<open>\<^verbatim>\<open>float(d.get(k) or 0)\<close>: an absent key and a zero both give zero.\<close>

definition float_or0 :: "real option \<Rightarrow> real" where
  "float_or0 v = (case v of None \<Rightarrow> 0 | Some x \<Rightarrow> (if x = 0 then 0 else x))"

text \<open>Truth value of \<^verbatim>\<open>d.get(k)\<close> for a text field: absent and empty are false.\<close>

definition truthy_str :: "string option \<Rightarrow> bool" where
  "truthy_str v = (case v of None \<Rightarrow> False | Some s \<Rightarrow> s \<noteq> [])"

definition truthy_bool :: "bool option \<Rightarrow> bool" where
  "truthy_bool v = (case v of None \<Rightarrow> False | Some b \<Rightarrow> b)"

text \<open>Python's \<^verbatim>\<open>sum\<close>: a left fold that starts from zero.\<close>

definition py_sum :: "real list \<Rightarrow> real" where
  "py_sum xs = foldl (+) 0 xs"

text \<open>\<^verbatim>\<open>str.strip()\<close>, on the ASCII white space characters.\<close>

definition is_space :: "char \<Rightarrow> bool" where
  "is_space c = (c \<in> set [CHR '' '', CHR 0x09, CHR 0x0A, CHR 0x0B, CHR 0x0C, CHR 0x0D,
                            CHR 0x1C, CHR 0x1D, CHR 0x1E, CHR 0x1F])"

definition strip :: "string \<Rightarrow> string" where
  "strip s = rev (dropWhile is_space (rev (dropWhile is_space s)))"

text \<open>Decimal text of a non-negative integer, as \<^verbatim>\<open>str(n)\<close> and \<^verbatim>\<open>f"{n}"\<close> give it.\<close>

definition digit_char :: "nat \<Rightarrow> char" where
  "digit_char d = ''0123456789'' ! d"

fun str_nat :: "nat \<Rightarrow> string" where
  "str_nat n = (if n < 10 then [digit_char n] else str_nat (n div 10) @ [digit_char (n mod 10)])"

declare str_nat.simps [simp del]

text \<open>
  The format \<^verbatim>\<open>{x:.2f}\<close>: two decimals, the nearest value, ties to the even neighbour;
  a negative number keeps its sign even when it rounds to zero.
\<close>

definition round_half_even :: "real \<Rightarrow> int" where
  "round_half_even x =
     (let f = \<lfloor>x\<rfloor>; d = x - of_int f
      in if d < 1 / 2 then f else if 1 / 2 < d then f + 1 else if even f then f else f + 1)"

definition fmt2 :: "real \<Rightarrow> string" where
  "fmt2 x =
     (let n = nat (round_half_even (\<bar>x\<bar> * 100))
      in (if x < 0 then ''-'' else '''') @ str_nat (n div 100) @ ''.'' @
         [digit_char (n mod 100 div 10), digit_char (n mod 10)])"

section \<open>Binary floating point\<close>

text \<open>
  A Python \<^verbatim>\<open>float\<close> and an SQLite \<^verbatim>\<open>REAL\<close> are IEEE 754 binary64 values: a number with at
  most 53 significant bits and a binary exponent from -1022 to 1023, one of the two
  infinities, or NaN. The two zeros are one value here, since they compare equal in Python
  and in SQLite, and NaN is one value.
\<close>

datatype double = Finite real | PInf | NInf | NaN

text \<open>
  The exponent that fixes the spacing of the binary64 values around a non-negative number:
  \<open>binade n x\<close> is the largest \<open>e\<close> from -1021 to \<open>n - 1022\<close> with \<open>2 powi e \<le> x\<close>, and -1022 when
  there is none. With \<open>n = 2045\<close> the exponents end at 1023, and -1022 stands for the
  subnormal range.
\<close>

fun binade :: "nat \<Rightarrow> real \<Rightarrow> int" where
  "binade 0 x = - 1022"
| "binade (Suc n) x = (if 2 powi (int n - 1021) \<le> x then int n - 1021 else binade n x)"

text \<open>
  Rounding of an exact result: to the nearest multiple of the spacing, ties to the even
  multiple; a result that reaches \<open>2 ^ 1024\<close> in size overflows to an infinity.
\<close>

definition round_double :: "real \<Rightarrow> double" where
  "round_double x =
     (let q = 2 powi (binade 2045 \<bar>x\<bar> - 52);
          y = of_int (round_half_even (x / q)) * q
      in if 2 ^ 1024 \<le> y then PInf else if y \<le> - (2 ^ 1024) then NInf else Finite y)"

fun fneg :: "double \<Rightarrow> double" where
  "fneg (Finite x) = Finite (- x)"
| "fneg PInf = NInf"
| "fneg NInf = PInf"
| "fneg NaN = NaN"

text \<open>Addition: NaN is contagious, and opposite infinities have no sum.\<close>

fun fadd :: "double \<Rightarrow> double \<Rightarrow> double" where
  "fadd (Finite x) (Finite y) = round_double (x + y)"
| "fadd NaN b = NaN"
| "fadd a NaN = NaN"
| "fadd PInf NInf = NaN"
| "fadd NInf PInf = NaN"
| "fadd PInf b = PInf"
| "fadd NInf b = NInf"
| "fadd (Finite x) b = b"

definition fsub :: "double \<Rightarrow> double \<Rightarrow> double" where
  "fsub a b = fadd a (fneg b)"

text \<open>Multiplication: an infinity times zero is NaN, otherwise the signs decide.\<close>

definition positive :: "double \<Rightarrow> bool" where
  "positive a = (case a of Finite x \<Rightarrow> 0 < x | PInf \<Rightarrow> True | NInf \<Rightarrow> False | NaN \<Rightarrow> False)"

fun fmul :: "double \<Rightarrow> double \<Rightarrow> double" where
  "fmul (Finite x) (Finite y) = round_double (x * y)"
| "fmul NaN b = NaN"
| "fmul a NaN = NaN"
| "fmul a b =
     (if a = Finite 0 \<or> b = Finite 0 then NaN
      else if positive a = positive b then PInf else NInf)"

text \<open>The truth value of a float: every value but zero, NaN included.\<close>

definition truthy_float :: "double \<Rightarrow> bool" where
  "truthy_float x = (x \<noteq> Finite 0)"

text \<open>\<^verbatim>\<open>float(d.get(k) or 0.0)\<close>: an absent key and a zero give zero, a NaN stays.\<close>

definition double_or0 :: "double option \<Rightarrow> double" where
  "double_or0 v = (case v of None \<Rightarrow> Finite 0 | Some x \<Rightarrow> (if truthy_float x then x else Finite 0))"

text \<open>\<^verbatim>\<open>sum\<close> over floats: a left fold that starts from zero.\<close>

definition float_sum :: "double list \<Rightarrow> double" where
  "float_sum xs = foldl fadd (Finite 0) xs"

text \<open>
  A float bound to a parameter of an SQL statement arrives as a \<^verbatim>\<open>REAL\<close>, except NaN, which
  arrives as \<^verbatim>\<open>NULL\<close>. A value of a column is \<open>None\<close> for \<^verbatim>\<open>NULL\<close>.
\<close>

definition sql_real :: "double \<Rightarrow> double option" where
  "sql_real x = (if x = NaN then None else Some x)"

text \<open>
  The operators \<^verbatim>\<open>+\<close>, \<^verbatim>\<open>-\<close> and \<^verbatim>\<open>*\<close> of SQLite on \<^verbatim>\<open>REAL\<close> values: \<^verbatim>\<open>NULL\<close> when an operand is
  \<^verbatim>\<open>NULL\<close>, and \<^verbatim>\<open>NULL\<close> when the result is NaN.
\<close>

definition sql_arith ::
  "(double \<Rightarrow> double \<Rightarrow> double) \<Rightarrow> double option \<Rightarrow> double option \<Rightarrow> double option" where
  "sql_arith f a b = (case a of None \<Rightarrow> None | Some x \<Rightarrow> (case b of None \<Rightarrow> None | Some y \<Rightarrow> sql_real (f x y)))"

definition sql_add :: "double option \<Rightarrow> double option \<Rightarrow> double option" where
  "sql_add = sql_arith fadd"

definition sql_sub :: "double option \<Rightarrow> double option \<Rightarrow> double option" where
  "sql_sub = sql_arith fsub"

definition sql_mul :: "double option \<Rightarrow> double option \<Rightarrow> double option" where
  "sql_mul = sql_arith fmul"

section \<open>The database of the reconciling variant\<close>

text \<open>
  A table with \<^verbatim>\<open>INTEGER PRIMARY KEY AUTOINCREMENT\<close>: the rows in insertion order and the
  largest row id ever handed out. The application never supplies an id, so the next id
  is always one more than that.
\<close>

record 'r tbl =
  seq :: nat
  rows :: "'r list"

definition insert_row :: "(nat \<Rightarrow> 'r) \<Rightarrow> 'r tbl \<Rightarrow> 'r tbl" where
  "insert_row mk t = \<lparr>seq = Suc (seq t), rows = rows t @ [mk (Suc (seq t))]\<rparr>"

fun add_rows :: "(nat \<Rightarrow> 'r) list \<Rightarrow> 'r tbl \<Rightarrow> 'r tbl" where
  "add_rows [] t = t"
| "add_rows (mk # mks) t = add_rows mks (insert_row mk t)"

text \<open>
  A row of \<^verbatim>\<open>inventory_movements\<close>. The four quantities are declared \<^verbatim>\<open>REAL DEFAULT 0\<close> and the
  two generated columns carry no constraint, so each of the six may hold \<^verbatim>\<open>NULL\<close>.
\<close>

record movement_row =
  mv_id :: nat
  mv_date :: string
  mv_item :: string
  opening_balance :: "double option"
  stock_in :: "double option"
  stock_out :: "double option"
  stock_returning_today :: "double option"
  closing_balance :: "double option"
  stock_remaining :: "double option"

record invoice_row =
  inv_id :: nat
  inv_date :: string
  inv_person_name :: string
  total_amount :: real
  collection_amount :: real
  due_amount :: real
  inv_notes :: string

record invoice_line_row =
  il_id :: nat
  il_invoice_id :: nat
  line_no :: nat
  il_item :: string
  il_unit_price :: real
  il_qty :: real
  il_units :: string
  il_highlight :: int
  il_amount :: real

record invoice_collection_row =
  ic_id :: nat
  ic_invoice_id :: nat
  ic_method :: string
  ic_amount :: real

record invoice_due_row =
  idue_id :: nat
  idue_invoice_id :: nat
  idue_shop_no :: string
  idue_amount :: real

record collection_row =
  col_id :: nat
  col_date :: string
  col_amount :: real
  col_note :: string

record db =
  items :: "(string \<times> real) list"
  inventory_movements :: "movement_row tbl"
  invoices :: "invoice_row tbl"
  invoice_lines :: "invoice_line_row tbl"
  invoice_collections :: "invoice_collection_row tbl"
  invoice_dues :: "invoice_due_row tbl"
  collections :: "collection_row tbl"

text \<open>
  \<^verbatim>\<open>get_conn\<close> switches foreign keys on, so an insert whose reference has no target raises
  \<^verbatim>\<open>sqlite3.IntegrityError\<close>.
\<close>

definition item_names :: "db \<Rightarrow> string set" where
  "item_names d = fst ` set (items d)"

definition invoice_ids :: "db \<Rightarrow> nat set" where
  "invoice_ids d = inv_id ` set (rows (invoices d))"

definition fk_error :: error where
  "fk_error = IntegrityError ''FOREIGN KEY constraint failed''"

text \<open>
  \<^verbatim>\<open>with get_conn() as conn\<close>: the block's writes are committed when it ends normally and
  rolled back when it raises; the exception goes on to the caller.
\<close>

definition with_conn :: "(db \<Rightarrow> error + 'a \<times> db) \<Rightarrow> db \<Rightarrow> (error + 'a) \<times> db" where
  "with_conn body d = (case body d of Inl e \<Rightarrow> (Inl e, d) | Inr (r, d') \<Rightarrow> (Inr r, d'))"

section \<open>The invoice ledger of the reconciling variant\<close>

record line =
  l_item :: "string option"
  l_unit_price :: "real option"
  l_qty :: "real option"
  l_units :: "string option"
  l_highlight :: "bool option"

record coll =
  c_method :: "string option"
  c_amount :: "real option"

record due =
  d_shop_no :: "string option"
  d_amount :: "real option"

text \<open>The three figures \<^verbatim>\<open>total\<close>, \<^verbatim>\<open>coll_total\<close> and \<^verbatim>\<open>due_total\<close> of \<^verbatim>\<open>create_invoice\<close>.\<close>

definition invoice_total :: "line list \<Rightarrow> real" where
  "invoice_total ls = py_sum (map (\<lambda>l. get_or 0 (l_unit_price l) * get_or 0 (l_qty l)) ls)"

definition coll_total :: "coll list \<Rightarrow> real" where
  "coll_total cs = py_sum (map (\<lambda>c. get_or 0 (c_amount c)) cs)"

definition due_total :: "due list \<Rightarrow> real" where
  "due_total ds = py_sum (map (\<lambda>d. get_or 0 (d_amount d)) ds)"

definition reconciles :: "line list \<Rightarrow> coll list \<Rightarrow> due list \<Rightarrow> bool" where
  "reconciles ls cs ds = (\<bar>invoice_total ls - (coll_total cs + due_total ds)\<bar> < 0.005)"

definition reconcile_msg :: "line list \<Rightarrow> coll list \<Rightarrow> due list \<Rightarrow> string" where
  "reconcile_msg ls cs ds =
     ''Total ('' @ fmt2 (invoice_total ls) @ '') must equal Collections ('' @
     fmt2 (coll_total cs) @ '') + Dues ('' @ fmt2 (due_total ds) @ '').''"

text \<open>One \<^verbatim>\<open>INSERT INTO invoice_lines\<close>; the column \<^verbatim>\<open>amount\<close> is generated and stored.\<close>

definition mk_line_row :: "nat \<Rightarrow> nat \<Rightarrow> line \<Rightarrow> nat \<Rightarrow> invoice_line_row" where
  "mk_line_row iid i l rid =
     \<lparr>il_id = rid, il_invoice_id = iid, line_no = i, il_item = the (l_item l),
      il_unit_price = float_or0 (l_unit_price l), il_qty = float_or0 (l_qty l),
      il_units = get_or '''' (l_units l),
      il_highlight = (if truthy_bool (l_highlight l) then 1 else 0),
      il_amount = float_or0 (l_unit_price l) * float_or0 (l_qty l)\<rparr>"

definition insert_invoice_line :: "nat \<Rightarrow> nat \<Rightarrow> line \<Rightarrow> db \<Rightarrow> error + db" where
  "insert_invoice_line iid i l d =
     (if iid \<in> invoice_ids d \<and> the (l_item l) \<in> item_names d
      then Inr (d\<lparr>invoice_lines := insert_row (mk_line_row iid i l) (invoice_lines d)\<rparr>)
      else Inl fk_error)"

text \<open>\<^verbatim>\<open>for i, line in enumerate(lines, start=1)\<close>, entered with the next index.\<close>

fun insert_lines :: "nat \<Rightarrow> nat \<Rightarrow> line list \<Rightarrow> db \<Rightarrow> error + db" where
  "insert_lines iid i [] d = Inr d"
| "insert_lines iid i (l # ls) d =
     (if \<not> truthy_str (l_item l) then insert_lines iid (Suc i) ls d
      else case insert_invoice_line iid i l d of
             Inl e \<Rightarrow> Inl e
           | Inr d' \<Rightarrow> insert_lines iid (Suc i) ls d')"

definition coerce_method :: "string option \<Rightarrow> string" where
  "coerce_method m = (if m \<notin> {Some ''Cash'', Some ''UPI''} then ''Cash'' else the m)"

definition mk_coll_row :: "nat \<Rightarrow> coll \<Rightarrow> nat \<Rightarrow> invoice_collection_row" where
  "mk_coll_row iid c rid =
     \<lparr>ic_id = rid, ic_invoice_id = iid, ic_method = coerce_method (c_method c),
      ic_amount = the (c_amount c)\<rparr>"

text \<open>The table carries \<^verbatim>\<open>CHECK(method IN ('Cash','UPI'))\<close>.\<close>

definition insert_invoice_collection :: "nat \<Rightarrow> coll \<Rightarrow> db \<Rightarrow> error + db" where
  "insert_invoice_collection iid c d =
     (if coerce_method (c_method c) \<notin> {''Cash'', ''UPI''}
      then Inl (IntegrityError ''CHECK constraint failed'')
      else if iid \<notin> invoice_ids d then Inl fk_error
      else Inr (d\<lparr>invoice_collections := insert_row (mk_coll_row iid c) (invoice_collections d)\<rparr>))"

fun insert_collections :: "nat \<Rightarrow> coll list \<Rightarrow> db \<Rightarrow> error + db" where
  "insert_collections iid [] d = Inr d"
| "insert_collections iid (c # cs) d =
     (if get_or 0 (c_amount c) \<le> 0 then insert_collections iid cs d
      else case insert_invoice_collection iid c d of
             Inl e \<Rightarrow> Inl e
           | Inr d' \<Rightarrow> insert_collections iid cs d')"

definition mk_due_row :: "nat \<Rightarrow> due \<Rightarrow> nat \<Rightarrow> invoice_due_row" where
  "mk_due_row iid du rid =
     \<lparr>idue_id = rid, idue_invoice_id = iid, idue_shop_no = strip (the (d_shop_no du)),
      idue_amount = the (d_amount du)\<rparr>"

text \<open>\<^verbatim>\<open>d["shop_no"]\<close> raises \<^verbatim>\<open>KeyError\<close> on a dict without that key.\<close>

definition insert_invoice_due :: "nat \<Rightarrow> due \<Rightarrow> db \<Rightarrow> error + db" where
  "insert_invoice_due iid du d =
     (if d_shop_no du = None then Inl (KeyError ''shop_no'')
      else if iid \<notin> invoice_ids d then Inl fk_error
      else Inr (d\<lparr>invoice_dues := insert_row (mk_due_row iid du) (invoice_dues d)\<rparr>))"

fun insert_dues :: "nat \<Rightarrow> due list \<Rightarrow> db \<Rightarrow> error + db" where
  "insert_dues iid [] d = Inr d"
| "insert_dues iid (du # dus) d =
     (if get_or 0 (d_amount du) \<le> 0 then insert_dues iid dus d
      else case insert_invoice_due iid du d of
             Inl e \<Rightarrow> Inl e
           | Inr d' \<Rightarrow> insert_dues iid dus d')"

definition mk_invoice_row ::
  "string \<Rightarrow> string \<Rightarrow> real \<Rightarrow> real \<Rightarrow> real \<Rightarrow> string \<Rightarrow> nat \<Rightarrow> invoice_row" where
  "mk_invoice_row date person_name tot ct dt notes rid =
     \<lparr>inv_id = rid, inv_date = date, inv_person_name = strip person_name, total_amount = tot,
      collection_amount = ct, due_amount = dt, inv_notes = notes\<rparr>"

definition mk_collection_row :: "string \<Rightarrow> real \<Rightarrow> string \<Rightarrow> nat \<Rightarrow> collection_row" where
  "mk_collection_row date amt note rid =
     \<lparr>col_id = rid, col_date = date, col_amount = amt, col_note = note\<rparr>"

definition invoice_note :: "nat \<Rightarrow> string \<Rightarrow> string" where
  "invoice_note iid person_name = ''Invoice #'' @ str_nat iid @ '' - '' @ person_name"

text \<open>The optional daily aggregate record.\<close>

definition insert_aggregate :: "string \<Rightarrow> string \<Rightarrow> real \<Rightarrow> nat \<Rightarrow> db \<Rightarrow> db" where
  "insert_aggregate date person_name ct iid d =
     (if ct \<noteq> 0
      then d\<lparr>collections :=
               insert_row (mk_collection_row date ct (invoice_note iid person_name)) (collections d)\<rparr>
      else d)"

text \<open>The statements inside the \<^verbatim>\<open>with\<close> block of \<^verbatim>\<open>create_invoice\<close>.\<close>

definition create_invoice_body ::
  "string \<Rightarrow> string \<Rightarrow> line list \<Rightarrow> coll list \<Rightarrow> due list \<Rightarrow> string \<Rightarrow> db \<Rightarrow> error + nat \<times> db" where
  "create_invoice_body date person_name lines colls dues notes d =
     (let tot = invoice_total lines; ct = coll_total colls; dt = due_total dues;
          d1 = d\<lparr>invoices := insert_row (mk_invoice_row date person_name tot ct dt notes) (invoices d)\<rparr>;
          iid = seq (invoices d1)
      in case insert_lines iid 1 lines d1 of
           Inl e \<Rightarrow> Inl e
         | Inr d2 \<Rightarrow>
             (case insert_collections iid colls d2 of
                Inl e \<Rightarrow> Inl e
              | Inr d3 \<Rightarrow>
                  (case insert_dues iid dues d3 of
                     Inl e \<Rightarrow> Inl e
                   | Inr d4 \<Rightarrow> Inr (iid, insert_aggregate date person_name ct iid d4))))"

text \<open>
  \<^verbatim>\<open>create_invoice\<close> returns \<^verbatim>\<open>(ok, message, invoice_id)\<close>; the second component of the
  model's result is the database afterwards.
\<close>

definition create_invoice ::
  "string \<Rightarrow> string \<Rightarrow> line list \<Rightarrow> coll list \<Rightarrow> due list \<Rightarrow> string \<Rightarrow> db
     \<Rightarrow> (error + bool \<times> string \<times> int) \<times> db" where
  "create_invoice date person_name lines colls dues notes d =
     (if \<not> reconciles lines colls dues
      then (Inr (False, reconcile_msg lines colls dues, - 1), d)
      else with_conn
             (\<lambda>d0. case create_invoice_body date person_name lines colls dues notes d0 of
                      Inl e \<Rightarrow> Inl e
                    | Inr (iid, d') \<Rightarrow>
                        Inr ((True, ''Invoice #'' @ str_nat iid @ '' saved.'', int iid), d'))
             d)"

text \<open>The rows each loop of \<^verbatim>\<open>create_invoice\<close> hands to the storage layer, still without ids.\<close>

definition line_mks :: "nat \<Rightarrow> nat \<Rightarrow> line list \<Rightarrow> (nat \<Rightarrow> invoice_line_row) list" where
  "line_mks iid i ls =
     map (\<lambda>(k, l). mk_line_row iid k l) (filter (\<lambda>(k, l). truthy_str (l_item l)) (enumerate i ls))"

definition coll_mks :: "nat \<Rightarrow> coll list \<Rightarrow> (nat \<Rightarrow> invoice_collection_row) list" where
  "coll_mks iid cs = map (mk_coll_row iid) (filter (\<lambda>c. 0 < get_or 0 (c_amount c)) cs)"

definition due_mks :: "nat \<Rightarrow> due list \<Rightarrow> (nat \<Rightarrow> invoice_due_row) list" where
  "due_mks iid ds = map (mk_due_row iid) (filter (\<lambda>du. 0 < get_or 0 (d_amount du)) ds)"

text \<open>What the storage layer asks of an invoice that passed the reconciliation check.\<close>

definition lines_reference_items :: "line list \<Rightarrow> string set \<Rightarrow> bool" where
  "lines_reference_items ls names = (\<forall>l \<in> set ls. truthy_str (l_item l) \<longrightarrow> the (l_item l) \<in> names)"

definition dues_have_shop :: "due list \<Rightarrow> bool" where
  "dues_have_shop ds = (\<forall>du \<in> set ds. 0 < get_or 0 (d_amount du) \<longrightarrow> d_shop_no du \<noteq> None)"

section \<open>Inventory movements\<close>

record movement =
  m_item :: "string option"
  m_opening_balance :: "double option"
  m_stock_in :: "double option"
  m_stock_out :: "double option"
  m_stock_returning_today :: "double option"

text \<open>
  One \<^verbatim>\<open>INSERT INTO inventory_movements\<close>. The statement binds \<^verbatim>\<open>float(r.get(k) or 0.0)\<close> for each of
  the four quantities. The columns \<^verbatim>\<open>closing_balance\<close> and \<^verbatim>\<open>stock_remaining\<close> are generated by the
  table definition, the first as
  \<^verbatim>\<open>(opening_balance + stock_in - stock_out + stock_returning_today)\<close> and the second as
  \<^verbatim>\<open>(closing_balance)\<close>, and stored with the row.
\<close>

definition mk_movement_row :: "string \<Rightarrow> movement \<Rightarrow> nat \<Rightarrow> movement_row" where
  "mk_movement_row date r rid =
     (let ob = sql_real (double_or0 (m_opening_balance r));
          si = sql_real (double_or0 (m_stock_in r));
          so = sql_real (double_or0 (m_stock_out r));
          sr = sql_real (double_or0 (m_stock_returning_today r));
          cb = sql_add (sql_sub (sql_add ob si) so) sr
      in \<lparr>mv_id = rid, mv_date = date, mv_item = the (m_item r), opening_balance = ob,
          stock_in = si, stock_out = so, stock_returning_today = sr,
          closing_balance = cb, stock_remaining = cb\<rparr>)"

definition insert_movement :: "string \<Rightarrow> movement \<Rightarrow> db \<Rightarrow> error + db" where
  "insert_movement date r d =
     (if the (m_item r) \<in> item_names d
      then Inr (d\<lparr>inventory_movements := insert_row (mk_movement_row date r) (inventory_movements d)\<rparr>)
      else Inl fk_error)"

fun insert_movements :: "string \<Rightarrow> movement list \<Rightarrow> db \<Rightarrow> error + db" where
  "insert_movements date [] d = Inr d"
| "insert_movements date (r # rs) d =
     (if \<not> truthy_str (m_item r) then insert_movements date rs d
      else case insert_movement date r d of
             Inl e \<Rightarrow> Inl e
           | Inr d' \<Rightarrow> insert_movements date rs d')"

definition add_inventory_movement :: "string \<Rightarrow> movement list \<Rightarrow> db \<Rightarrow> (error + unit) \<times> db" where
  "add_inventory_movement date rs d =
     with_conn (\<lambda>d0. case insert_movements date rs d0 of
                        Inl e \<Rightarrow> Inl e
                      | Inr d' \<Rightarrow> Inr ((), d'))
               d"

section \<open>The variant without reconciliation\<close>

text \<open>
  \<^verbatim>\<open>inventory_billing_app.py\<close> has no collection and due tables for an invoice, and its invoice
  lines have no highlight column. The amounts of an invoice, the unit price and the
  quantity of a line and the amount of a collection are declared \<^verbatim>\<open>REAL NOT NULL\<close>; the
  generated amount of a line carries no constraint.
\<close>

record app_line =
  ln_item :: "string option"
  ln_unit_price :: "double option"
  ln_qty :: "double option"
  ln_units :: "string option"

record app_invoice_row =
  ai_id :: nat
  ai_date :: string
  ai_person_name :: string
  ai_total_amount :: double
  ai_collection_amount :: double
  ai_due_amount :: double
  ai_notes :: string

record app_line_row =
  al_id :: nat
  al_invoice_id :: nat
  al_line_no :: nat
  al_item :: string
  al_unit_price :: double
  al_qty :: double
  al_units :: string
  al_amount :: "double option"

record app_collection_row =
  ac_id :: nat
  ac_date :: string
  ac_amount :: double
  ac_note :: string

record app_db =
  app_items :: "(string \<times> real) list"
  app_inventory_movements :: "movement_row tbl"
  app_invoices :: "app_invoice_row tbl"
  app_invoice_lines :: "app_line_row tbl"
  app_collections :: "app_collection_row tbl"

definition app_with_conn :: "(app_db \<Rightarrow> error + 'a \<times> app_db) \<Rightarrow> app_db \<Rightarrow> (error + 'a) \<times> app_db" where
  "app_with_conn body d = (case body d of Inl e \<Rightarrow> (Inl e, d) | Inr (r, d') \<Rightarrow> (Inr r, d'))"

text \<open>A \<^verbatim>\<open>NULL\<close> for a column declared \<^verbatim>\<open>NOT NULL\<close> raises \<^verbatim>\<open>sqlite3.IntegrityError\<close>.\<close>

definition not_null_error :: "string \<Rightarrow> error" where
  "not_null_error c = IntegrityError (''NOT NULL constraint failed: '' @ c)"

text \<open>
  \<^verbatim>\<open>sum((float(l.get("unit_price", 0)) * float(l.get("qty", 0))) for l in lines)\<close>
\<close>

definition app_total :: "app_line list \<Rightarrow> double" where
  "app_total lines =
     float_sum (map (\<lambda>l. fmul (get_or (Finite 0) (ln_unit_price l)) (get_or (Finite 0) (ln_qty l))) lines)"

text \<open>The \<^verbatim>\<open>INSERT INTO invoices\<close>, with the three amounts as they are bound.\<close>

definition mk_app_invoice_row ::
  "string \<Rightarrow> string \<Rightarrow> double \<Rightarrow> double \<Rightarrow> double \<Rightarrow> string \<Rightarrow> nat \<Rightarrow> app_invoice_row" where
  "mk_app_invoice_row date name tot coll du notes rid =
     \<lparr>ai_id = rid, ai_date = date, ai_person_name = name, ai_total_amount = tot,
      ai_collection_amount = coll, ai_due_amount = du, ai_notes = notes\<rparr>"

definition app_insert_invoice ::
  "string \<Rightarrow> string \<Rightarrow> double \<Rightarrow> double \<Rightarrow> double \<Rightarrow> string \<Rightarrow> app_db \<Rightarrow> error + app_db" where
  "app_insert_invoice date name tot coll du notes d =
     (case sql_real tot of
        None \<Rightarrow> Inl (not_null_error ''invoices.total_amount'')
      | Some t \<Rightarrow>
          (case sql_real coll of
             None \<Rightarrow> Inl (not_null_error ''invoices.collection_amount'')
           | Some c \<Rightarrow>
               (case sql_real du of
                  None \<Rightarrow> Inl (not_null_error ''invoices.due_amount'')
                | Some u \<Rightarrow>
                    Inr (d\<lparr>app_invoices :=
                             insert_row (mk_app_invoice_row date name t c u notes) (app_invoices d)\<rparr>))))"

text \<open>
  One \<^verbatim>\<open>INSERT INTO invoice_lines\<close>: the unit price and the quantity are bound as
  \<^verbatim>\<open>float(line.get(k) or 0)\<close>, the amount is generated as \<^verbatim>\<open>(unit_price * qty)\<close>. The columns are
  checked for \<^verbatim>\<open>NULL\<close> before the references are.
\<close>

definition mk_app_line_row :: "nat \<Rightarrow> nat \<Rightarrow> app_line \<Rightarrow> double \<Rightarrow> double \<Rightarrow> nat \<Rightarrow> app_line_row" where
  "mk_app_line_row iid i l up q rid =
     \<lparr>al_id = rid, al_invoice_id = iid, al_line_no = i, al_item = the (ln_item l),
      al_unit_price = up, al_qty = q, al_units = get_or '''' (ln_units l),
      al_amount = sql_mul (Some up) (Some q)\<rparr>"

definition app_insert_invoice_line :: "nat \<Rightarrow> nat \<Rightarrow> app_line \<Rightarrow> app_db \<Rightarrow> error + app_db" where
  "app_insert_invoice_line iid i l d =
     (case sql_real (double_or0 (ln_unit_price l)) of
        None \<Rightarrow> Inl (not_null_error ''invoice_lines.unit_price'')
      | Some up \<Rightarrow>
          (case sql_real (double_or0 (ln_qty l)) of
             None \<Rightarrow> Inl (not_null_error ''invoice_lines.qty'')
           | Some q \<Rightarrow>
               if iid \<in> ai_id ` set (rows (app_invoices d)) \<and> the (ln_item l) \<in> fst ` set (app_items d)
               then Inr (d\<lparr>app_invoice_lines :=
                             insert_row (mk_app_line_row iid i l up q) (app_invoice_lines d)\<rparr>)
               else Inl fk_error))"

fun app_insert_lines :: "nat \<Rightarrow> nat \<Rightarrow> app_line list \<Rightarrow> app_db \<Rightarrow> error + app_db" where
  "app_insert_lines iid i [] d = Inr d"
| "app_insert_lines iid i (l # ls) d =
     (if \<not> truthy_str (ln_item l) then app_insert_lines iid (Suc i) ls d
      else case app_insert_invoice_line iid i l d of
             Inl e \<Rightarrow> Inl e
           | Inr d' \<Rightarrow> app_insert_lines iid (Suc i) ls d')"

text \<open>The \<^verbatim>\<open>INSERT INTO collections\<close> of the daily aggregate.\<close>

definition app_insert_collection :: "string \<Rightarrow> double \<Rightarrow> string \<Rightarrow> app_db \<Rightarrow> error + app_db" where
  "app_insert_collection date amt note d =
     (case sql_real amt of
        None \<Rightarrow> Inl (not_null_error ''collections.amount'')
      | Some a \<Rightarrow>
          Inr (d\<lparr>app_collections :=
                   insert_row (\<lambda>rid. \<lparr>ac_id = rid, ac_date = date, ac_amount = a, ac_note = note\<rparr>)
                     (app_collections d)\<rparr>))"

text \<open>
  \<^verbatim>\<open>create_invoice\<close> of \<^verbatim>\<open>inventory_billing_app.py\<close>: it takes one collection amount, derives
  the due as \<^verbatim>\<open>total - float(collection_amount or 0)\<close>, and returns the new invoice id.
\<close>

definition app_create_invoice ::
  "string \<Rightarrow> string \<Rightarrow> app_line list \<Rightarrow> double \<Rightarrow> string \<Rightarrow> app_db \<Rightarrow> (error + nat) \<times> app_db" where
  "app_create_invoice date person_name lines collection_amt notes d =
     (let tot = app_total lines;
          du = fsub tot (if truthy_float collection_amt then collection_amt else Finite 0)
      in app_with_conn
           (\<lambda>d0.
              case app_insert_invoice date (strip person_name) tot collection_amt du notes d0 of
                Inl e \<Rightarrow> Inl e
              | Inr d1 \<Rightarrow>
                  (case app_insert_lines (seq (app_invoices d1)) 1 lines d1 of
                     Inl e \<Rightarrow> Inl e
                   | Inr d2 \<Rightarrow>
                       if truthy_float collection_amt \<and> collection_amt \<noteq> Finite 0
                       then (case app_insert_collection date collection_amt
                                    (invoice_note (seq (app_invoices d1)) person_name) d2 of
                               Inl e \<Rightarrow> Inl e
                             | Inr d3 \<Rightarrow> Inr (seq (app_invoices d1), d3))
                       else Inr (seq (app_invoices d1), d2)))
           d)"

text \<open>
  What the constraints of the schema ask of a call: no amount of the invoice row is NaN,
  and every line with an item has a unit price and a quantity that are not NaN and names
  an item of the items table.
\<close>

definition app_line_storable :: "app_db \<Rightarrow> app_line \<Rightarrow> bool" where
  "app_line_storable d l =
     (truthy_str (ln_item l) \<longrightarrow>
        double_or0 (ln_unit_price l) \<noteq> NaN \<and> double_or0 (ln_qty l) \<noteq> NaN \<and>
        the (ln_item l) \<in> fst ` set (app_items d))"

definition app_storable :: "app_line list \<Rightarrow> double \<Rightarrow> app_db \<Rightarrow> bool" where
  "app_storable ls coll d =
     (app_total ls \<noteq> NaN \<and> coll \<noteq> NaN \<and> fsub (app_total ls) coll \<noteq> NaN \<and>
      list_all (app_line_storable d) ls)"

text \<open>The invoice line rows of a call, before they are given their row ids.\<close>

definition app_line_mks :: "nat \<Rightarrow> nat \<Rightarrow> app_line list \<Rightarrow> (nat \<Rightarrow> app_line_row) list" where
  "app_line_mks iid i ls =
     map (\<lambda>(k, l). mk_app_line_row iid k l (double_or0 (ln_unit_price l)) (double_or0 (ln_qty l)))
       (filter (\<lambda>(k, l). truthy_str (ln_item l)) (enumerate i ls))"

section \<open>The schema manager\<close>

text \<open>
  The catalogue of the database file: the tables in creation order, each with its column
  definitions and its stored rows. SQLite matches table and column names without regard
  to ASCII case; Python's \<^verbatim>\<open>in\<close> compares text exactly. \<^verbatim>\<open>PRAGMA table_info\<close> leaves
  generated columns out.
\<close>

record column =
  cname :: string
  cdecl :: string
  cgenerated :: bool

record 'r table =
  t_cols :: "column list"
  t_rows :: "'r list"

type_synonym 'r catalogue = "(string \<times> 'r table) list"

definition lower_char :: "char \<Rightarrow> char" where
  "lower_char c =
     (case map_of (zip ''ABCDEFGHIJKLMNOPQRSTUVWXYZ'' ''abcdefghijklmnopqrstuvwxyz'') c of
        None \<Rightarrow> c
      | Some l \<Rightarrow> l)"

definition lower :: "string \<Rightarrow> string" where
  "lower s = map lower_char s"

definition same_name :: "string \<Rightarrow> string \<Rightarrow> bool" where
  "same_name a b = (lower a = lower b)"

definition find_table :: "string \<Rightarrow> 'r catalogue \<Rightarrow> (string \<times> 'r table) option" where
  "find_table name cat = find (\<lambda>(n, t). same_name n name) cat"

text \<open>\<^verbatim>\<open>CREATE TABLE IF NOT EXISTS name(cols)\<close>.\<close>

definition create_table_if_not_exists :: "string \<Rightarrow> column list \<Rightarrow> 'r catalogue \<Rightarrow> 'r catalogue" where
  "create_table_if_not_exists name cols cat =
     (case find_table name cat of
        Some _ \<Rightarrow> cat
      | None \<Rightarrow> cat @ [(name, \<lparr>t_cols = cols, t_rows = []\<rparr>)])"

fun add_column_to :: "string \<Rightarrow> column \<Rightarrow> 'r catalogue \<Rightarrow> 'r catalogue" where
  "add_column_to name c [] = []"
| "add_column_to name c ((n, t) # rest) =
     (if same_name n name then (n, t\<lparr>t_cols := t_cols t @ [c]\<rparr>) # rest
      else (n, t) # add_column_to name c rest)"

text \<open>
  \<^verbatim>\<open>ALTER TABLE name ADD COLUMN c\<close>. The stored rows are not touched: a row that lacks the
  new column reads as the column's default.
\<close>

definition alter_table_add_column :: "string \<Rightarrow> column \<Rightarrow> 'r catalogue \<Rightarrow> error + 'r catalogue" where
  "alter_table_add_column name c cat =
     (case find_table name cat of
        None \<Rightarrow> Inl (OperationalError (''no such table: '' @ name))
      | Some (n, t) \<Rightarrow>
          if list_ex (\<lambda>c'. same_name (cname c') (cname c)) (t_cols t)
          then Inl (OperationalError (''duplicate column name: '' @ cname c))
          else Inr (add_column_to name c cat))"

definition table_info :: "string \<Rightarrow> 'r catalogue \<Rightarrow> column list" where
  "table_info name cat =
     (case find_table name cat of
        None \<Rightarrow> []
      | Some (n, t) \<Rightarrow> filter (\<lambda>c. \<not> cgenerated c) (t_cols t))"

definition table_has_column :: "'r catalogue \<Rightarrow> string \<Rightarrow> string \<Rightarrow> bool" where
  "table_has_column cat tab col = (col \<in> set (map cname (table_info tab cat)))"

definition plain :: "string \<Rightarrow> string \<Rightarrow> column" where
  "plain n decl = \<lparr>cname = n, cdecl = decl, cgenerated = False\<rparr>"

definition generated :: "string \<Rightarrow> string \<Rightarrow> column" where
  "generated n decl = \<lparr>cname = n, cdecl = decl, cgenerated = True\<rparr>"

definition items_cols :: "column list" where
  "items_cols = [plain ''item'' ''TEXT PRIMARY KEY'', plain ''rate'' ''REAL NOT NULL'']"

definition inventory_movements_cols :: "column list" where
  "inventory_movements_cols =
     [plain ''id'' ''INTEGER PRIMARY KEY AUTOINCREMENT'',
      plain ''date'' ''DATE NOT NULL'',
      plain ''item'' ''TEXT NOT NULL REFERENCES items(item) ON UPDATE CASCADE ON DELETE RESTRICT'',
      plain ''opening_balance'' ''REAL DEFAULT 0'',
      plain ''stock_in'' ''REAL DEFAULT 0'',
      plain ''stock_out'' ''REAL DEFAULT 0'',
      plain ''stock_returning_today'' ''REAL DEFAULT 0'',
      generated ''closing_balance''
        ''AS (opening_balance + stock_in - stock_out + stock_returning_today) STORED'',
      generated ''stock_remaining'' ''AS (closing_balance) STORED'']"

definition invoices_cols :: "column list" where
  "invoices_cols =
     [plain ''id'' ''INTEGER PRIMARY KEY AUTOINCREMENT'',
      plain ''date'' ''DATE NOT NULL'',
      plain ''person_name'' ''TEXT NOT NULL'',
      plain ''total_amount'' ''REAL NOT NULL DEFAULT 0'',
      plain ''collection_amount'' ''REAL NOT NULL DEFAULT 0'',
      plain ''due_amount'' ''REAL NOT NULL DEFAULT 0'',
      plain ''notes'' ''TEXT'']"

definition highlight_col :: column where
  "highlight_col = plain ''highlight'' ''INTEGER NOT NULL DEFAULT 0''"

definition invoice_lines_cols :: "column list" where
  "invoice_lines_cols =
     [plain ''id'' ''INTEGER PRIMARY KEY AUTOINCREMENT'',
      plain ''invoice_id'' ''INTEGER NOT NULL REFERENCES invoices(id) ON DELETE CASCADE'',
      plain ''line_no'' ''INTEGER NOT NULL'',
      plain ''item'' ''TEXT NOT NULL REFERENCES items(item)'',
      plain ''unit_price'' ''REAL NOT NULL'',
      plain ''qty'' ''REAL NOT NULL'',
      plain ''units'' ''TEXT'',
      highlight_col,
      generated ''amount'' ''AS (unit_price * qty) STORED'']"

definition invoice_collections_cols :: "column list" where
  "invoice_collections_cols =
     [plain ''id'' ''INTEGER PRIMARY KEY AUTOINCREMENT'',
      plain ''invoice_id'' ''INTEGER NOT NULL REFERENCES invoices(id) ON DELETE CASCADE'',
      plain ''method'' ''TEXT NOT NULL CHECK(method IN ('Cash','UPI'))'',
      plain ''amount'' ''REAL NOT NULL'']"

definition invoice_dues_cols :: "column list" where
  "invoice_dues_cols =
     [plain ''id'' ''INTEGER PRIMARY KEY AUTOINCREMENT'',
      plain ''invoice_id'' ''INTEGER NOT NULL REFERENCES invoices(id) ON DELETE CASCADE'',
      plain ''shop_no'' ''TEXT NOT NULL'',
      plain ''amount'' ''REAL NOT NULL'']"

definition collections_cols :: "column list" where
  "collections_cols =
     [plain ''id'' ''INTEGER PRIMARY KEY AUTOINCREMENT'',
      plain ''date'' ''DATE NOT NULL'',
      plain ''amount'' ''REAL NOT NULL'',
      plain ''note'' ''TEXT'']"

definition init_db_schema :: "'r catalogue \<Rightarrow> 'r catalogue" where
  "init_db_schema cat =
     create_table_if_not_exists ''collections'' collections_cols
       (create_table_if_not_exists ''invoice_dues'' invoice_dues_cols
         (create_table_if_not_exists ''invoice_collections'' invoice_collections_cols
           (create_table_if_not_exists ''invoice_lines'' invoice_lines_cols
             (create_table_if_not_exists ''invoices'' invoices_cols
               (create_table_if_not_exists ''inventory_movements'' inventory_movements_cols
                 (create_table_if_not_exists ''items'' items_cols cat))))))"

text \<open>
  \<^verbatim>\<open>migrate_db\<close>. A statement of the schema language is committed as soon as it has run, so
  the catalogue that comes back with an error is the one the failing statement found.
\<close>

definition migrate_db :: "'r catalogue \<Rightarrow> (error + unit) \<times> 'r catalogue" where
  "migrate_db cat =
     (case (if \<not> table_has_column cat ''invoice_lines'' ''highlight''
            then alter_table_add_column ''invoice_lines'' highlight_col cat
            else Inr cat) of
        Inl e \<Rightarrow> (Inl e, cat)
      | Inr cat1 \<Rightarrow>
          (Inr (),
           create_table_if_not_exists ''invoice_dues'' invoice_dues_cols
             (create_table_if_not_exists ''invoice_collections'' invoice_collections_cols cat1)))"

text \<open>\<^verbatim>\<open>init_db_schema()\<close> followed by \<^verbatim>\<open>migrate_db()\<close>, as \<^verbatim>\<open>init_all\<close> runs them.\<close>

definition setup_schema :: "'r catalogue \<Rightarrow> (error + unit) \<times> 'r catalogue" where
  "setup_schema cat = migrate_db (init_db_schema cat)"

text \<open>The set-up run \<open>n\<close> times in a row; an error ends the sequence.\<close>

fun setup_schema_times :: "nat \<Rightarrow> 'r catalogue \<Rightarrow> (error + unit) \<times> 'r catalogue" where
  "setup_schema_times 0 cat = (Inr (), cat)"
| "setup_schema_times (Suc n) cat =
     (case setup_schema cat of
        (Inl e, cat') \<Rightarrow> (Inl e, cat')
      | (Inr u, cat') \<Rightarrow> setup_schema_times n cat')"

text \<open>
  A catalogue extends another one when it keeps every table in place, under its name,
  with its rows as they were and its columns as a prefix of the new column list.
\<close>

definition extends :: "'r catalogue \<Rightarrow> 'r catalogue \<Rightarrow> bool" where
  "extends cat cat' =
     (length cat \<le> length cat' \<and>
      (\<forall>i < length cat.
         fst (cat' ! i) = fst (cat ! i) \<and>
         t_rows (snd (cat' ! i)) = t_rows (snd (cat ! i)) \<and>
         prefix (t_cols (snd (cat ! i))) (t_cols (snd (cat' ! i)))))"

definition distinct_columns :: "'r catalogue \<Rightarrow> bool" where
  "distinct_columns cat = (\<forall>(n, t) \<in> set cat. distinct (map (\<lambda>c. lower (cname c)) (t_cols t)))"

section \<open>Sample data\<close>

definition empty_tbl :: "'r tbl" where
  "empty_tbl = \<lparr>seq = 0, rows = []\<rparr>"

definition shop_db :: db where
  "shop_db =
     \<lparr>items = [(''A'', 10)], inventory_movements = empty_tbl, invoices = empty_tbl,
      invoice_lines = empty_tbl, invoice_collections = empty_tbl, invoice_dues = empty_tbl,
      collections = empty_tbl\<rparr>"

definition line_of :: "string \<Rightarrow> real \<Rightarrow> real \<Rightarrow> line" where
  "line_of it price q =
     \<lparr>l_item = Some it, l_unit_price = Some price, l_qty = Some q, l_units = Some ''UNITS'',
      l_highlight = Some False\<rparr>"

definition coll_of :: "string \<Rightarrow> real \<Rightarrow> coll" where
  "coll_of m a = \<lparr>c_method = Some m, c_amount = Some a\<rparr>"

definition due_of :: "string \<Rightarrow> real \<Rightarrow> due" where
  "due_of s a = \<lparr>d_shop_no = Some s, d_amount = Some a\<rparr>"

text \<open>The database that a saved invoice leaves behind, table by table.\<close>

definition saved_db ::
  "string \<Rightarrow> string \<Rightarrow> line list \<Rightarrow> coll list \<Rightarrow> due list \<Rightarrow> string \<Rightarrow> db \<Rightarrow> db" where
  "saved_db date person_name ls cs ds notes d =
     (let iid = Suc (seq (invoices d))
      in d\<lparr>invoices :=
             insert_row (mk_invoice_row date person_name (invoice_total ls) (coll_total cs)
                           (due_total ds) notes) (invoices d),
           invoice_lines := add_rows (line_mks iid 1 ls) (invoice_lines d),
           invoice_collections := add_rows (coll_mks iid cs) (invoice_collections d),
           invoice_dues := add_rows (due_mks iid ds) (invoice_dues d),
           collections :=
             (if coll_total cs \<noteq> 0
              then insert_row (mk_collection_row date (coll_total cs) (invoice_note iid person_name))
                     (collections d)
              else collections d)\<rparr>)"

text \<open>
  An invoice with an empty-item line, a zero-quantity line, a collection whose method is
  outside the enumeration, a zero collection and a due whose shop is blank.
\<close>

definition sample_lines :: "line list" where
  "sample_lines =
     [line_of ''A'' 10 2,
      \<lparr>l_item = Some '''', l_unit_price = Some 5, l_qty = Some 1, l_units = Some ''UNITS'',
       l_highlight = Some False\<rparr>,
      line_of ''A'' 10 0]"

definition sample_colls :: "coll list" where
  "sample_colls = [coll_of ''Card'' 15, coll_of ''UPI'' 0]"

definition sample_dues :: "due list" where
  "sample_dues = [due_of '' '' 10]"

definition movement_of :: "string \<Rightarrow> double \<Rightarrow> double \<Rightarrow> double \<Rightarrow> double \<Rightarrow> movement" where
  "movement_of it ob si so sr =
     \<lparr>m_item = Some it, m_opening_balance = Some ob, m_stock_in = Some si, m_stock_out = Some so,
      m_stock_returning_today = Some sr\<rparr>"

text \<open>Two movements of one item: one with four numbers, one whose opening balance is NaN.\<close>

definition sample_movements :: "movement list" where
  "sample_movements =
     [movement_of ''A'' (Finite 50) (Finite 10) (Finite 5) (Finite 2),
      movement_of ''A'' NaN (Finite 10) (Finite 5) (Finite 2)]"

definition app_line_of :: "string \<Rightarrow> double \<Rightarrow> double \<Rightarrow> app_line" where
  "app_line_of it price q =
     \<lparr>ln_item = Some it, ln_unit_price = Some price, ln_qty = Some q, ln_units = Some ''UNITS''\<rparr>"

definition app_empty_db :: app_db where
  "app_empty_db =
     \<lparr>app_items = [], app_inventory_movements = empty_tbl, app_invoices = empty_tbl,
      app_invoice_lines = empty_tbl, app_collections = empty_tbl\<rparr>"

definition app_shop_db :: app_db where
  "app_shop_db = app_empty_db\<lparr>app_items := [(''A'', 10)]\<rparr>"

text \<open>A collection entry with its method replaced by the method that is stored.\<close>

definition coerce_coll :: "coll \<Rightarrow> coll" where
  "coerce_coll c = c\<lparr>c_method := Some (coerce_method (c_method c))\<rparr>"

section \<open>Catalogues used in the proofs\<close>

text \<open>A table is present when a look-up by its name finds one.\<close>

definition has_table :: "string \<Rightarrow> 'r catalogue \<Rightarrow> bool" where
  "has_table name cat = (find_table name cat \<noteq> None)"

text \<open>The seven tables that \<^verbatim>\<open>init_db_schema\<close> creates.\<close>

definition schema_tables :: "string list" where
  "schema_tables =
     [''items'', ''inventory_movements'', ''invoices'', ''invoice_lines'', ''invoice_collections'',
      ''invoice_dues'', ''collections'']"

definition has_all :: "'r catalogue \<Rightarrow> bool" where
  "has_all cat = list_all (\<lambda>n. has_table n cat) schema_tables"

text \<open>
  The invoice lines of \<^verbatim>\<open>inventory_billing_app.py\<close>, and a database file written by that
  variant: two of its tables, with one row each, before and after the set-up.
\<close>

definition app_invoice_lines_cols :: "column list" where
  "app_invoice_lines_cols =
     [plain ''id'' ''INTEGER PRIMARY KEY AUTOINCREMENT'',
      plain ''invoice_id'' ''INTEGER NOT NULL REFERENCES invoices(id) ON DELETE CASCADE'',
      plain ''line_no'' ''INTEGER NOT NULL'',
      plain ''item'' ''TEXT NOT NULL REFERENCES items(item)'',
      plain ''unit_price'' ''REAL NOT NULL'',
      plain ''qty'' ''REAL NOT NULL'',
      plain ''units'' ''TEXT'',
      generated ''amount'' ''AS (unit_price * qty) STORED'']"

definition old_catalogue :: "string list catalogue" where
  "old_catalogue =
     [(''items'', \<lparr>t_cols = items_cols, t_rows = [[''A'', ''10.0'']]\<rparr>),
      (''invoice_lines'',
       \<lparr>t_cols = app_invoice_lines_cols,
        t_rows = [[''1'', ''1'', ''1'', ''A'', ''10.0'', ''2.0'', ''UNITS'']]\<rparr>)]"

definition new_catalogue :: "string list catalogue" where
  "new_catalogue =
     [(''items'', \<lparr>t_cols = items_cols, t_rows = [[''A'', ''10.0'']]\<rparr>),
      (''invoice_lines'',
       \<lparr>t_cols = app_invoice_lines_cols @ [plain ''highlight'' ''INTEGER NOT NULL DEFAULT 0''],
        t_rows = [[''1'', ''1'', ''1'', ''A'', ''10.0'', ''2.0'', ''UNITS'']]\<rparr>),
      (''inventory_movements'', \<lparr>t_cols = inventory_movements_cols, t_rows = []\<rparr>),
      (''invoices'', \<lparr>t_cols = invoices_cols, t_rows = []\<rparr>),
      (''invoice_collections'', \<lparr>t_cols = invoice_collections_cols, t_rows = []\<rparr>),
      (''invoice_dues'', \<lparr>t_cols = invoice_dues_cols, t_rows = []\<rparr>),
      (''collections'', \<lparr>t_cols = collections_cols, t_rows = []\<rparr>)]"

section \<open>Sums and tables\<close>

lemma foldl_add_sum_list: "foldl (+) a xs = a + sum_list (xs :: real list)"
  by (induction xs arbitrary: a) simp_all

lemma py_sum_sum_list: "py_sum xs = sum_list xs"
  by (simp add: py_sum_def foldl_add_sum_list)

lemma seq_add_rows: "seq (add_rows mks t) = seq t + length mks"
  by (induction mks arbitrary: t) (simp_all add: insert_row_def)

lemma rows_add_rows:
  "rows (add_rows mks t) = rows t @ map (\<lambda>(rid, mk). mk rid) (enumerate (Suc (seq t)) mks)"
  by (induction mks arbitrary: t) (simp_all add: insert_row_def)

lemma rows_insert_row: "rows (insert_row mk t) = rows t @ [mk (Suc (seq t))]"
  by (simp add: insert_row_def)

section \<open>The loops of the ledger\<close>

lemma invoice_ids_upd [simp]:
  "invoice_ids (d\<lparr>invoice_lines := a\<rparr>) = invoice_ids d"
  "invoice_ids (d\<lparr>invoice_collections := b\<rparr>) = invoice_ids d"
  "invoice_ids (d\<lparr>invoice_dues := c\<rparr>) = invoice_ids d"
  by (simp_all add: invoice_ids_def)

lemma item_names_upd [simp]:
  "item_names (d\<lparr>invoice_lines := a\<rparr>) = item_names d"
  "item_names (d\<lparr>invoices := b\<rparr>) = item_names d"
  "item_names (d\<lparr>inventory_movements := c\<rparr>) = item_names d"
  by (simp_all add: item_names_def)

lemma insert_lines_Inr:
  "insert_lines iid i ls d = Inr d' \<Longrightarrow>
     d' = d\<lparr>invoice_lines := add_rows (line_mks iid i ls) (invoice_lines d)\<rparr>"
proof (induction ls arbitrary: i d)
  case Nil
  then show ?case by (simp add: line_mks_def)
next
  case (Cons l ls)
  show ?case
  proof (cases "truthy_str (l_item l)")
    case False
    with Cons show ?thesis by (simp add: line_mks_def)
  next
    case True
    with Cons.prems obtain d1 where
      d1: "insert_invoice_line iid i l d = Inr d1" and
      rest: "insert_lines iid (Suc i) ls d1 = Inr d'"
      by (auto split: sum.splits)
    from d1 have d1_eq: "d1 = d\<lparr>invoice_lines := insert_row (mk_line_row iid i l) (invoice_lines d)\<rparr>"
      by (auto simp: insert_invoice_line_def split: if_splits)
    from Cons.IH [OF rest] True show ?thesis
      by (simp add: d1_eq line_mks_def)
  qed
qed

lemma insert_lines_ok:
  "iid \<in> invoice_ids d \<Longrightarrow> lines_reference_items ls (item_names d) \<Longrightarrow>
   insert_lines iid i ls d = Inr (d\<lparr>invoice_lines := add_rows (line_mks iid i ls) (invoice_lines d)\<rparr>)"
proof (induction ls arbitrary: i d)
  case Nil
  then show ?case by (simp add: line_mks_def)
next
  case (Cons l ls)
  from Cons.prems have tl_ok: "lines_reference_items ls (item_names d)"
    by (simp add: lines_reference_items_def)
  show ?case
  proof (cases "truthy_str (l_item l)")
    case False
    with Cons.IH [OF Cons.prems(1) tl_ok] show ?thesis by (simp add: line_mks_def)
  next
    case True
    let ?d1 = "d\<lparr>invoice_lines := insert_row (mk_line_row iid i l) (invoice_lines d)\<rparr>"
    from True Cons.prems have "insert_invoice_line iid i l d = Inr ?d1"
      by (simp add: insert_invoice_line_def lines_reference_items_def)
    moreover have "insert_lines iid (Suc i) ls ?d1 =
        Inr (?d1\<lparr>invoice_lines := add_rows (line_mks iid (Suc i) ls) (invoice_lines ?d1)\<rparr>)"
      using Cons.prems(1) tl_ok by (intro Cons.IH) simp_all
    ultimately show ?thesis using True by (simp add: line_mks_def)
  qed
qed

lemma insert_lines_fails:
  "l \<in> set ls \<Longrightarrow> truthy_str (l_item l) \<Longrightarrow> the (l_item l) \<notin> item_names d \<Longrightarrow>
   insert_lines iid i ls d = Inl fk_error"
proof (induction ls arbitrary: i d)
  case Nil
  then show ?case by simp
next
  case (Cons a ls)
  show ?case
  proof (cases "truthy_str (l_item a)")
    case False
    with Cons show ?thesis by auto
  next
    case True
    show ?thesis
    proof (cases "insert_invoice_line iid i a d")
      case (Inl e)
      then have "e = fk_error" by (auto simp: insert_invoice_line_def split: if_splits)
      with Inl True show ?thesis by simp
    next
      case (Inr d1)
      then have d1: "d1 = d\<lparr>invoice_lines := insert_row (mk_line_row iid i a) (invoice_lines d)\<rparr>"
        and ok: "the (l_item a) \<in> item_names d"
        by (auto simp: insert_invoice_line_def split: if_splits)
      from ok Cons.prems have "l \<in> set ls" by auto
      from Cons.IH [OF this Cons.prems(2), of d1 "Suc i"] Cons.prems(3) d1 Inr True
      show ?thesis by simp
    qed
  qed
qed

lemma coerce_method_cases: "coerce_method m = ''Cash'' \<or> coerce_method m = ''UPI''"
  by (auto simp: coerce_method_def)

lemma insert_invoice_collection_eq:
  "insert_invoice_collection iid c d =
     (if iid \<in> invoice_ids d
      then Inr (d\<lparr>invoice_collections := insert_row (mk_coll_row iid c) (invoice_collections d)\<rparr>)
      else Inl fk_error)"
  using coerce_method_cases [of "c_method c"] by (auto simp: insert_invoice_collection_def)

lemma insert_collections_Inr:
  "insert_collections iid cs d = Inr d' \<Longrightarrow>
     d' = d\<lparr>invoice_collections := add_rows (coll_mks iid cs) (invoice_collections d)\<rparr>"
proof (induction cs arbitrary: d)
  case Nil
  then show ?case by (simp add: coll_mks_def)
next
  case (Cons c cs)
  show ?case
  proof (cases "get_or 0 (c_amount c) \<le> 0")
    case True
    with Cons show ?thesis by (simp add: coll_mks_def)
  next
    case False
    with Cons.prems have
      rest: "insert_collections iid cs
               (d\<lparr>invoice_collections := insert_row (mk_coll_row iid c) (invoice_collections d)\<rparr>) = Inr d'"
      by (auto simp: insert_invoice_collection_eq split: if_splits)
    from Cons.IH [OF rest] False show ?thesis by (simp add: coll_mks_def)
  qed
qed

lemma insert_collections_ok:
  "iid \<in> invoice_ids d \<Longrightarrow>
   insert_collections iid cs d =
     Inr (d\<lparr>invoice_collections := add_rows (coll_mks iid cs) (invoice_collections d)\<rparr>)"
proof (induction cs arbitrary: d)
  case Nil
  then show ?case by (simp add: coll_mks_def)
next
  case (Cons c cs)
  show ?case
  proof (cases "get_or 0 (c_amount c) \<le> 0")
    case True
    with Cons show ?thesis by (simp add: coll_mks_def)
  next
    case False
    let ?d1 = "d\<lparr>invoice_collections := insert_row (mk_coll_row iid c) (invoice_collections d)\<rparr>"
    have "insert_collections iid cs ?d1 =
        Inr (?d1\<lparr>invoice_collections := add_rows (coll_mks iid cs) (invoice_collections ?d1)\<rparr>)"
      using Cons.prems by (intro Cons.IH) simp
    with False Cons.prems show ?thesis by (simp add: coll_mks_def insert_invoice_collection_eq)
  qed
qed

lemma insert_dues_Inr:
  "insert_dues iid ds d = Inr d' \<Longrightarrow>
     d' = d\<lparr>invoice_dues := add_rows (due_mks iid ds) (invoice_dues d)\<rparr>"
proof (induction ds arbitrary: d)
  case Nil
  then show ?case by (simp add: due_mks_def)
next
  case (Cons du ds)
  show ?case
  proof (cases "get_or 0 (d_amount du) \<le> 0")
    case True
    with Cons show ?thesis by (simp add: due_mks_def)
  next
    case False
    with Cons.prems have
      rest: "insert_dues iid ds
               (d\<lparr>invoice_dues := insert_row (mk_due_row iid du) (invoice_dues d)\<rparr>) = Inr d'"
      by (auto simp: insert_invoice_due_def split: if_splits)
    from Cons.IH [OF rest] False show ?thesis by (simp add: due_mks_def)
  qed
qed

lemma insert_dues_ok:
  "iid \<in> invoice_ids d \<Longrightarrow> dues_have_shop ds \<Longrightarrow>
   insert_dues iid ds d = Inr (d\<lparr>invoice_dues := add_rows (due_mks iid ds) (invoice_dues d)\<rparr>)"
proof (induction ds arbitrary: d)
  case Nil
  then show ?case by (simp add: due_mks_def)
next
  case (Cons du ds)
  from Cons.prems have tl_ok: "dues_have_shop ds"
    by (simp add: dues_have_shop_def)
  show ?case
  proof (cases "get_or 0 (d_amount du) \<le> 0")
    case True
    with Cons.IH [OF Cons.prems(1) tl_ok] show ?thesis by (simp add: due_mks_def)
  next
    case False
    let ?d1 = "d\<lparr>invoice_dues := insert_row (mk_due_row iid du) (invoice_dues d)\<rparr>"
    have "insert_dues iid ds ?d1 =
        Inr (?d1\<lparr>invoice_dues := add_rows (due_mks iid ds) (invoice_dues ?d1)\<rparr>)"
      using Cons.prems(1) tl_ok by (intro Cons.IH) simp_all
    with False Cons.prems show ?thesis
      by (simp add: due_mks_def insert_invoice_due_def dues_have_shop_def)
  qed
qed

section \<open>What a saved invoice leaves in the database\<close>

lemma new_invoice_id:
  "Suc (seq (invoices d)) \<in> invoice_ids (d\<lparr>invoices := insert_row (mk_invoice_row date p t c u n) (invoices d)\<rparr>)"
  by (simp add: invoice_ids_def insert_row_def mk_invoice_row_def)

lemma seq_insert_row: "seq (insert_row mk t) = Suc (seq t)"
  by (simp add: insert_row_def)

lemma create_invoice_body_unfold:
  "create_invoice_body date p ls cs ds notes d =
     (case insert_lines (Suc (seq (invoices d))) 1 ls
             (d\<lparr>invoices := insert_row (mk_invoice_row date p (invoice_total ls) (coll_total cs)
                   (due_total ds) notes) (invoices d)\<rparr>) of
        Inl e \<Rightarrow> Inl e
      | Inr d2 \<Rightarrow>
          (case insert_collections (Suc (seq (invoices d))) cs d2 of
             Inl e \<Rightarrow> Inl e
           | Inr d3 \<Rightarrow>
               (case insert_dues (Suc (seq (invoices d))) ds d3 of
                  Inl e \<Rightarrow> Inl e
                | Inr d4 \<Rightarrow>
                    Inr (Suc (seq (invoices d)),
                         insert_aggregate date p (coll_total cs) (Suc (seq (invoices d))) d4))))"
proof -
  have iid: "seq (invoices (d\<lparr>invoices := insert_row (mk_invoice_row date p (invoice_total ls)
               (coll_total cs) (due_total ds) notes) (invoices d)\<rparr>)) = Suc (seq (invoices d))"
    by (simp add: insert_row_def)
  show ?thesis
    unfolding create_invoice_body_def Let_def iid by (rule refl)
qed

lemma saved_db_steps:
  "insert_aggregate date p (coll_total cs) (Suc (seq (invoices d)))
     (d\<lparr>invoices := inv', invoice_lines := a, invoice_collections := b, invoice_dues := c\<rparr>) =
   d\<lparr>invoices := inv', invoice_lines := a, invoice_collections := b, invoice_dues := c,
     collections :=
       (if coll_total cs \<noteq> 0
        then insert_row (mk_collection_row date (coll_total cs)
               (invoice_note (Suc (seq (invoices d))) p)) (collections d)
        else collections d)\<rparr>"
  by (simp add: insert_aggregate_def)

lemma create_invoice_body_Inr:
  assumes "create_invoice_body date p ls cs ds notes d = Inr (i, d')"
  shows "i = Suc (seq (invoices d)) \<and> d' = saved_db date p ls cs ds notes d"
proof -
  let ?d1 = "d\<lparr>invoices := insert_row (mk_invoice_row date p (invoice_total ls) (coll_total cs)
                 (due_total ds) notes) (invoices d)\<rparr>"
  let ?iid = "Suc (seq (invoices d))"
  from assms [unfolded create_invoice_body_unfold]
  obtain d2 where s2: "insert_lines ?iid 1 ls ?d1 = Inr d2"
    and r2: "(case insert_collections ?iid cs d2 of
                Inl e \<Rightarrow> Inl e
              | Inr d3 \<Rightarrow>
                 (case insert_dues ?iid ds d3 of
                    Inl e \<Rightarrow> Inl e
                  | Inr d4 \<Rightarrow> Inr (?iid, insert_aggregate date p (coll_total cs) ?iid d4))) = Inr (i, d')"
    by (cases "insert_lines ?iid 1 ls ?d1") simp_all
  from r2 obtain d3 where s3: "insert_collections ?iid cs d2 = Inr d3"
    and r3: "(case insert_dues ?iid ds d3 of
                    Inl e \<Rightarrow> Inl e
                  | Inr d4 \<Rightarrow> Inr (?iid, insert_aggregate date p (coll_total cs) ?iid d4)) = Inr (i, d')"
    by (cases "insert_collections ?iid cs d2") simp_all
  from r3 obtain d4 where s4: "insert_dues ?iid ds d3 = Inr d4"
    and res: "i = ?iid" "d' = insert_aggregate date p (coll_total cs) ?iid d4"
    by (cases "insert_dues ?iid ds d3") auto
  have "d4 = d\<lparr>invoices := insert_row (mk_invoice_row date p (invoice_total ls) (coll_total cs)
                 (due_total ds) notes) (invoices d),
               invoice_lines := add_rows (line_mks ?iid 1 ls) (invoice_lines d),
               invoice_collections := add_rows (coll_mks ?iid cs) (invoice_collections d),
               invoice_dues := add_rows (due_mks ?iid ds) (invoice_dues d)\<rparr>"
    using insert_lines_Inr [OF s2] insert_collections_Inr [OF s3] insert_dues_Inr [OF s4]
    by simp
  with res show ?thesis
    by (simp only: saved_db_steps saved_db_def Let_def simp_thms)
qed

lemma create_invoice_body_ok:
  assumes "lines_reference_items ls (item_names d)" and "dues_have_shop ds"
  shows "create_invoice_body date p ls cs ds notes d =
           Inr (Suc (seq (invoices d)), saved_db date p ls cs ds notes d)"
proof -
  let ?d1 = "d\<lparr>invoices := insert_row (mk_invoice_row date p (invoice_total ls) (coll_total cs)
                 (due_total ds) notes) (invoices d)\<rparr>"
  let ?iid = "Suc (seq (invoices d))"
  let ?d2 = "?d1\<lparr>invoice_lines := add_rows (line_mks ?iid 1 ls) (invoice_lines ?d1)\<rparr>"
  let ?d3 = "?d2\<lparr>invoice_collections := add_rows (coll_mks ?iid cs) (invoice_collections ?d2)\<rparr>"
  let ?d4 = "?d3\<lparr>invoice_dues := add_rows (due_mks ?iid ds) (invoice_dues ?d3)\<rparr>"
  have mem: "?iid \<in> invoice_ids ?d1" by (rule new_invoice_id)
  have s2: "insert_lines ?iid 1 ls ?d1 = Inr ?d2"
    using mem assms(1) by (intro insert_lines_ok) simp_all
  have s3: "insert_collections ?iid cs ?d2 = Inr ?d3"
    using mem by (intro insert_collections_ok) simp
  have s4: "insert_dues ?iid ds ?d3 = Inr ?d4"
    using mem assms(2) by (intro insert_dues_ok) simp_all
  have d4: "?d4 = d\<lparr>invoices := insert_row (mk_invoice_row date p (invoice_total ls) (coll_total cs)
                 (due_total ds) notes) (invoices d),
               invoice_lines := add_rows (line_mks ?iid 1 ls) (invoice_lines d),
               invoice_collections := add_rows (coll_mks ?iid cs) (invoice_collections d),
               invoice_dues := add_rows (due_mks ?iid ds) (invoice_dues d)\<rparr>"
    by simp
  have "create_invoice_body date p ls cs ds notes d =
          Inr (?iid, insert_aggregate date p (coll_total cs) ?iid ?d4)"
    by (simp only: create_invoice_body_unfold s2 s3 s4 sum.case)
  also have "insert_aggregate date p (coll_total cs) ?iid ?d4 = saved_db date p ls cs ds notes d"
    by (simp only: d4 saved_db_steps saved_db_def Let_def)
  finally show ?thesis .
qed

lemma create_invoice_saved:
  assumes "create_invoice date p ls cs ds notes d = (Inr (True, msg, i), d')"
  shows "reconciles ls cs ds \<and> i = int (Suc (seq (invoices d))) \<and>
         msg = ''Invoice #'' @ str_nat (Suc (seq (invoices d))) @ '' saved.'' \<and>
         d' = saved_db date p ls cs ds notes d"
proof -
  from assms have rec: "reconciles ls cs ds"
    by (auto simp: create_invoice_def split: if_splits)
  show ?thesis
  proof (cases "create_invoice_body date p ls cs ds notes d")
    case (Inl e)
    with assms rec show ?thesis by (simp add: create_invoice_def with_conn_def)
  next
    case (Inr r)
    obtain k d2 where r: "r = (k, d2)" by (cases r)
    from assms rec Inr r have "i = int k" "msg = ''Invoice #'' @ str_nat k @ '' saved.''" "d' = d2"
      by (simp_all add: create_invoice_def with_conn_def)
    with create_invoice_body_Inr [OF Inr [unfolded r]] rec show ?thesis by simp
  qed
qed

lemma create_invoice_ok:
  assumes "reconciles ls cs ds" and "lines_reference_items ls (item_names d)"
    and "dues_have_shop ds"
  shows "create_invoice date p ls cs ds notes d =
           (Inr (True, ''Invoice #'' @ str_nat (Suc (seq (invoices d))) @ '' saved.'',
                 int (Suc (seq (invoices d)))),
            saved_db date p ls cs ds notes d)"
  using assms(1) create_invoice_body_ok [OF assms(2,3)]
  by (simp add: create_invoice_def with_conn_def)

section \<open>Sample evaluations\<close>

lemma sample_totals:
  "invoice_total sample_lines = 25" "coll_total sample_colls = 15" "due_total sample_dues = 10"
  by (simp_all add: invoice_total_def coll_total_def due_total_def py_sum_def get_or_def
      sample_lines_def sample_colls_def sample_dues_def line_of_def coll_of_def due_of_def)

lemma shop_db_fields:
  "item_names shop_db = {''A''}" "seq (invoices shop_db) = 0" "rows (invoices shop_db) = []"
  "seq (invoice_lines shop_db) = 0" "rows (invoice_lines shop_db) = []"
  "seq (invoice_collections shop_db) = 0" "rows (invoice_collections shop_db) = []"
  "seq (invoice_dues shop_db) = 0" "rows (invoice_dues shop_db) = []"
  "seq (collections shop_db) = 0" "rows (collections shop_db) = []"
  "seq (inventory_movements shop_db) = 0" "rows (inventory_movements shop_db) = []"
  by (simp_all add: shop_db_def item_names_def empty_tbl_def)

lemma sample_reconciles: "reconciles sample_lines sample_colls sample_dues"
  by (simp add: reconciles_def sample_totals)

lemma sample_lines_ok: "lines_reference_items sample_lines (item_names shop_db)"
  by (simp add: shop_db_fields lines_reference_items_def sample_lines_def line_of_def
      truthy_str_def)

lemma sample_dues_ok: "dues_have_shop sample_dues"
  by (simp add: dues_have_shop_def sample_dues_def due_of_def)

lemmas sample_storable = sample_reconciles sample_lines_ok sample_dues_ok

lemma str_nat_1: "str_nat (Suc 0) = ''1''"
  by (simp add: str_nat.simps digit_char_def)

lemma sample_saved:
  "create_invoice ''2025-10-01'' ''Asha'' sample_lines sample_colls sample_dues '''' shop_db =
     (Inr (True, ''Invoice #1 saved.'', 1),
      saved_db ''2025-10-01'' ''Asha'' sample_lines sample_colls sample_dues '''' shop_db)"
  using create_invoice_ok [OF sample_storable, of "''2025-10-01''" "''Asha''" "''''"]
  by (simp add: shop_db_fields str_nat_1)

lemma sample_line_rows:
  "rows (invoice_lines (saved_db ''2025-10-01'' ''Asha'' sample_lines sample_colls sample_dues '''' shop_db)) =
     [\<lparr>il_id = 1, il_invoice_id = 1, line_no = 1, il_item = ''A'', il_unit_price = 10, il_qty = 2,
       il_units = ''UNITS'', il_highlight = 0, il_amount = 20\<rparr>,
      \<lparr>il_id = 2, il_invoice_id = 1, line_no = 3, il_item = ''A'', il_unit_price = 10, il_qty = 0,
       il_units = ''UNITS'', il_highlight = 0, il_amount = 0\<rparr>]"
  by (simp add: saved_db_def shop_db_fields line_mks_def sample_lines_def line_of_def
      truthy_str_def enumerate_eq_zip insert_row_def mk_line_row_def float_or0_def get_or_def
      truthy_bool_def)

lemma sample_coll_rows:
  "rows (invoice_collections (saved_db ''2025-10-01'' ''Asha'' sample_lines sample_colls sample_dues '''' shop_db)) =
     [\<lparr>ic_id = 1, ic_invoice_id = 1, ic_method = ''Cash'', ic_amount = 15\<rparr>]"
  by (simp add: saved_db_def shop_db_fields coll_mks_def sample_colls_def coll_of_def
      insert_row_def mk_coll_row_def get_or_def coerce_method_def)

lemma sample_due_rows:
  "rows (invoice_dues (saved_db ''2025-10-01'' ''Asha'' sample_lines sample_colls sample_dues '''' shop_db)) =
     [\<lparr>idue_id = 1, idue_invoice_id = 1, idue_shop_no = '''', idue_amount = 10\<rparr>]"
  by (simp add: saved_db_def shop_db_fields due_mks_def sample_dues_def due_of_def
      insert_row_def mk_due_row_def get_or_def strip_def is_space_def)

lemma sample_invoice_rows:
  "rows (invoices (saved_db ''2025-10-01'' ''Asha'' sample_lines sample_colls sample_dues '''' shop_db)) =
     [\<lparr>inv_id = 1, inv_date = ''2025-10-01'', inv_person_name = ''Asha'', total_amount = 25,
       collection_amount = 15, due_amount = 10, inv_notes = ''''\<rparr>]"
  by (simp add: saved_db_def shop_db_fields sample_totals insert_row_def mk_invoice_row_def
      strip_def is_space_def)

lemma sample_aggregate_rows:
  "rows (collections (saved_db ''2025-10-01'' ''Asha'' sample_lines sample_colls sample_dues '''' shop_db)) =
     [\<lparr>col_id = 1, col_date = ''2025-10-01'', col_amount = 15, col_note = ''Invoice #1 - Asha''\<rparr>]"
  by (simp add: saved_db_def shop_db_fields sample_totals insert_row_def mk_collection_row_def
      invoice_note_def str_nat_1)

section \<open>The rows of a saved invoice\<close>

lemma create_invoice_saved_fst:
  assumes "fst (create_invoice date p ls cs ds notes d) = Inr (True, msg, i)"
  shows "snd (create_invoice date p ls cs ds notes d) = saved_db date p ls cs ds notes d"
proof -
  from assms have "create_invoice date p ls cs ds notes d =
      (Inr (True, msg, i), snd (create_invoice date p ls cs ds notes d))"
    by (metis prod.collapse)
  from create_invoice_saved [OF this] show ?thesis by simp
qed

lemma rows_invoices_saved:
  "rows (invoices (saved_db date p ls cs ds notes d)) =
     rows (invoices d) @
     [\<lparr>inv_id = Suc (seq (invoices d)), inv_date = date, inv_person_name = strip p,
       total_amount = invoice_total ls, collection_amount = coll_total cs,
       due_amount = due_total ds, inv_notes = notes\<rparr>]"
  by (simp add: saved_db_def insert_row_def mk_invoice_row_def)

lemma enumerate_map_apply:
  "map (\<lambda>p. snd p (fst p)) (enumerate n (map f xs)) = map (\<lambda>p. f (snd p) (fst p)) (enumerate n xs)"
  by (induction xs arbitrary: n) simp_all

lemma rows_lines_saved:
  "rows (invoice_lines (saved_db date p ls cs ds notes d)) =
     rows (invoice_lines d) @
     map (\<lambda>(rid, k, l). mk_line_row (Suc (seq (invoices d))) k l rid)
       (enumerate (Suc (seq (invoice_lines d)))
          (filter (\<lambda>(k, l). truthy_str (l_item l)) (enumerate 1 ls)))"
  by (simp add: saved_db_def rows_add_rows line_mks_def enumerate_map_apply case_prod_unfold)

lemma rows_colls_saved:
  "rows (invoice_collections (saved_db date p ls cs ds notes d)) =
     rows (invoice_collections d) @
     map (\<lambda>(rid, c). mk_coll_row (Suc (seq (invoices d))) c rid)
       (enumerate (Suc (seq (invoice_collections d)))
          (filter (\<lambda>c. 0 < get_or 0 (c_amount c)) cs))"
  by (simp add: saved_db_def rows_add_rows coll_mks_def enumerate_map_apply case_prod_unfold)

lemma rows_dues_saved:
  "rows (invoice_dues (saved_db date p ls cs ds notes d)) =
     rows (invoice_dues d) @
     map (\<lambda>(rid, du). mk_due_row (Suc (seq (invoices d))) du rid)
       (enumerate (Suc (seq (invoice_dues d)))
          (filter (\<lambda>du. 0 < get_or 0 (d_amount du)) ds))"
  by (simp add: saved_db_def rows_add_rows due_mks_def enumerate_map_apply case_prod_unfold)

lemma rows_aggregate_saved:
  "rows (collections (saved_db date p ls cs ds notes d)) =
     rows (collections d) @
     (if coll_total cs \<noteq> 0
      then [\<lparr>col_id = Suc (seq (collections d)), col_date = date, col_amount = coll_total cs,
              col_note = ''Invoice #'' @ str_nat (Suc (seq (invoices d))) @ '' - '' @ p\<rparr>]
      else [])"
  by (simp add: saved_db_def insert_row_def mk_collection_row_def invoice_note_def)

lemma invoice_total_single: "invoice_total [line_of it price q] = price * q"
  by (simp add: invoice_total_def py_sum_def get_or_def line_of_def)

lemma coll_total_single: "coll_total [coll_of m a] = a"
  by (simp add: coll_total_def py_sum_def get_or_def coll_of_def)

lemma due_total_Nil: "due_total [] = 0"
  by (simp add: due_total_def py_sum_def)

section \<open>Amounts that are not positive\<close>

lemma sum_list_filter_pos:
  "\<forall>x \<in> set xs. (0::real) \<le> f x \<Longrightarrow> (\<Sum>x\<leftarrow>filter (\<lambda>x. 0 < f x) xs. f x) = (\<Sum>x\<leftarrow>xs. f x)"
  by (induction xs) (auto simp: order.order_iff_strict)

section \<open>Coercion of the collection method\<close>

lemma coerce_method_idem: "coerce_method (Some (coerce_method m)) = coerce_method m"
  by (auto simp: coerce_method_def)

lemma mk_coll_row_coerce: "mk_coll_row iid (coerce_coll c) = mk_coll_row iid c"
  by (simp add: mk_coll_row_def coerce_coll_def coerce_method_idem fun_eq_iff)

lemma coll_total_coerce: "coll_total (map coerce_coll cs) = coll_total cs"
  by (simp add: coll_total_def coerce_coll_def comp_def)

lemma insert_invoice_collection_coerce:
  "insert_invoice_collection iid (coerce_coll c) d = insert_invoice_collection iid c d"
  by (simp add: insert_invoice_collection_eq mk_coll_row_coerce)

lemma insert_collections_coerce:
  "insert_collections iid (map coerce_coll cs) d = insert_collections iid cs d"
proof (induction cs arbitrary: d)
  case Nil
  show ?case by simp
next
  case (Cons c cs)
  have amt: "c_amount (coerce_coll c) = c_amount c" by (simp add: coerce_coll_def)
  show ?case
    by (simp add: amt insert_invoice_collection_coerce Cons.IH split: sum.splits)
qed

lemma create_invoice_body_coerce:
  "create_invoice_body date p ls (map coerce_coll cs) ds notes d =
   create_invoice_body date p ls cs ds notes d"
  unfolding create_invoice_body_unfold coll_total_coerce
  by (cases "insert_lines (Suc (seq (invoices d))) 1 ls
        (d\<lparr>invoices := insert_row (mk_invoice_row date p (invoice_total ls) (coll_total cs)
              (due_total ds) notes) (invoices d)\<rparr>)")
     (simp_all add: insert_collections_coerce)

lemma create_invoice_coerce:
  "create_invoice date p ls (map coerce_coll cs) ds notes d = create_invoice date p ls cs ds notes d"
  by (simp add: create_invoice_def reconciles_def reconcile_msg_def coll_total_coerce
      create_invoice_body_coerce with_conn_def)

section \<open>Rounding at a known exponent\<close>

lemma powi_less_exponent:
  assumes "(2::real) powi a < 2 powi b"
  shows "a < b"
proof (rule ccontr)
  assume "\<not> a < b"
  then have "(2::real) powi b \<le> 2 powi a"
    by (intro power_int_increasing) simp_all
  with assms show False by simp
qed

lemma binade_unique:
  assumes "2 powi e \<le> x" and "x < 2 powi (e + 1)" and "- 1022 \<le> e" and "e \<le> int n - 1022"
  shows "binade n x = e"
  using assms
proof (induction n)
  case 0
  then show ?case by simp
next
  case (Suc n)
  show ?case
  proof (cases "2 powi (int n - 1021) \<le> x")
    case True
    with Suc.prems(2) have "(2::real) powi (int n - 1021) < 2 powi (e + 1)" by simp
    then have "int n - 1021 < e + 1"
      by (rule powi_less_exponent)
    with Suc.prems(4) have "e = int n - 1021" by simp
    with True show ?thesis by simp
  next
    case False
    with Suc.prems(1) have "(2::real) powi e < 2 powi (int n - 1021)" by simp
    then have "e < int n - 1021"
      by (rule powi_less_exponent)
    then have "e \<le> int n - 1022" by simp
    from Suc.IH [OF Suc.prems(1) Suc.prems(2) Suc.prems(3) this] False show ?thesis by simp
  qed
qed

lemma binade_below: "x < 2 powi (- 1021) \<Longrightarrow> binade n x = - 1022"
proof (induction n)
  case 0
  show ?case by simp
next
  case (Suc n)
  have "(2::real) powi (- 1021) \<le> 2 powi (int n - 1021)"
    by (rule power_int_increasing) simp_all
  with Suc.prems have "\<not> 2 powi (int n - 1021) \<le> x" by simp
  with Suc show ?case by simp
qed

lemma round_double_at:
  assumes "2 powi e \<le> \<bar>x\<bar>" and "\<bar>x\<bar> < 2 powi (e + 1)" and "- 1022 \<le> e" and "e \<le> 1023"
  shows "round_double x =
     (let q = 2 powi (e - 52);
          y = of_int (round_half_even (x / q)) * q
      in if 2 ^ 1024 \<le> y then PInf else if y \<le> - (2 ^ 1024) then NInf else Finite y)"
proof -
  have "binade 2045 \<bar>x\<bar> = e"
    using assms by (intro binade_unique) simp_all
  then show ?thesis by (simp add: round_double_def)
qed

lemma round_double_0: "round_double 0 = Finite 0"
  by (simp add: round_double_def round_half_even_def Let_def)

lemma round_double_not_NaN: "round_double x \<noteq> NaN"
  by (simp add: round_double_def Let_def)

lemma round_double_60: "round_double 60 = Finite 60"
  by (subst round_double_at [of 5]) (simp_all add: round_half_even_def Let_def)

section \<open>Stored movements\<close>

lemma round_double_55: "round_double 55 = Finite 55"
  by (subst round_double_at [of 5]) (simp_all add: round_half_even_def Let_def)

lemma round_double_57: "round_double 57 = Finite 57"
  by (subst round_double_at [of 5]) (simp_all add: round_half_even_def Let_def)

lemma sample_closing_balance:
  "sql_add (sql_sub (sql_add (Some (Finite 50)) (Some (Finite 10))) (Some (Finite 5))) (Some (Finite 2)) =
     Some (Finite 57)"
  by (simp add: sql_add_def sql_sub_def sql_arith_def sql_real_def fsub_def round_double_60
      round_double_55 round_double_57)

lemma fsub_NaN [simp]: "fsub NaN b = NaN"
  by (simp add: fsub_def)

lemma fadd_NaN_right [simp]: "fadd a NaN = NaN"
  by (cases a) simp_all

lemma sql_sum_of_values:
  "sql_add (sql_sub (sql_add (Some a) (Some b)) (Some c)) (Some e) =
     sql_real (fadd (fsub (fadd a b) c) e)"
  by (simp add: sql_add_def sql_sub_def sql_arith_def sql_real_def)

lemma sql_sum_of_null:
  "a = None \<or> b = None \<or> c = None \<or> e = None \<Longrightarrow> sql_add (sql_sub (sql_add a b) c) e = None"
  by (auto simp: sql_add_def sql_sub_def sql_arith_def split: option.splits)

lemma rows_add_rows_map:
  "rows (add_rows (map f xs) t) = rows t @ map (\<lambda>p. f (snd p) (fst p)) (enumerate (Suc (seq t)) xs)"
  by (simp add: rows_add_rows enumerate_map_apply case_prod_unfold)

lemma insert_movements_ok:
  "\<forall>r \<in> set rs. truthy_str (m_item r) \<longrightarrow> the (m_item r) \<in> item_names d \<Longrightarrow>
   insert_movements date rs d =
     Inr (d\<lparr>inventory_movements :=
             add_rows (map (mk_movement_row date) (filter (\<lambda>r. truthy_str (m_item r)) rs))
               (inventory_movements d)\<rparr>)"
proof (induction rs arbitrary: d)
  case Nil
  show ?case by simp
next
  case (Cons r rs)
  show ?case
  proof (cases "truthy_str (m_item r)")
    case False
    with Cons.IH [of d] Cons.prems show ?thesis by simp
  next
    case True
    let ?d1 = "d\<lparr>inventory_movements := insert_row (mk_movement_row date r) (inventory_movements d)\<rparr>"
    from True Cons.prems have one: "insert_movement date r d = Inr ?d1"
      by (simp add: insert_movement_def)
    from Cons.prems have "\<forall>r \<in> set rs. truthy_str (m_item r) \<longrightarrow> the (m_item r) \<in> item_names ?d1"
      by simp
    from Cons.IH [OF this] True one show ?thesis by simp
  qed
qed

lemma insert_movements_fails:
  "\<not> (\<forall>r \<in> set rs. truthy_str (m_item r) \<longrightarrow> the (m_item r) \<in> item_names d) \<Longrightarrow>
   insert_movements date rs d = Inl fk_error"
proof (induction rs arbitrary: d)
  case Nil
  then show ?case by simp
next
  case (Cons r rs)
  show ?case
  proof (cases "truthy_str (m_item r)")
    case False
    with Cons.IH [of d] Cons.prems show ?thesis by simp
  next
    case True
    note item = this
    show ?thesis
    proof (cases "the (m_item r) \<in> item_names d")
      case False
      with item show ?thesis by (simp add: insert_movement_def)
    next
      case True
      let ?d1 = "d\<lparr>inventory_movements := insert_row (mk_movement_row date r) (inventory_movements d)\<rparr>"
      from True have one: "insert_movement date r d = Inr ?d1"
        by (simp add: insert_movement_def)
      from True item Cons.prems
      have "\<not> (\<forall>r \<in> set rs. truthy_str (m_item r) \<longrightarrow> the (m_item r) \<in> item_names ?d1)"
        by simp
      from Cons.IH [OF this] item one show ?thesis by simp
    qed
  qed
qed

lemma add_inventory_movement_ok:
  "\<forall>r \<in> set rs. truthy_str (m_item r) \<longrightarrow> the (m_item r) \<in> item_names d \<Longrightarrow>
   add_inventory_movement date rs d =
     (Inr (),
      d\<lparr>inventory_movements :=
          add_rows (map (mk_movement_row date) (filter (\<lambda>r. truthy_str (m_item r)) rs))
            (inventory_movements d)\<rparr>)"
  by (simp add: add_inventory_movement_def with_conn_def insert_movements_ok)

lemma add_inventory_movement_fails:
  "\<not> (\<forall>r \<in> set rs. truthy_str (m_item r) \<longrightarrow> the (m_item r) \<in> item_names d) \<Longrightarrow>
   add_inventory_movement date rs d = (Inl fk_error, d)"
  by (simp add: add_inventory_movement_def with_conn_def insert_movements_fails)

lemma add_inventory_movement_rows:
  "rows (inventory_movements (snd (add_inventory_movement date rs d))) =
     rows (inventory_movements d) @
     (if fst (add_inventory_movement date rs d) = Inr ()
      then map (\<lambda>p. mk_movement_row date (snd p) (fst p))
             (enumerate (Suc (seq (inventory_movements d))) (filter (\<lambda>r. truthy_str (m_item r)) rs))
      else [])"
proof (cases "\<forall>r \<in> set rs. truthy_str (m_item r) \<longrightarrow> the (m_item r) \<in> item_names d")
  case True
  show ?thesis
    unfolding add_inventory_movement_ok [OF True] fst_conv snd_conv
    by (simp add: rows_add_rows_map)
next
  case False
  show ?thesis
    unfolding add_inventory_movement_fails [OF False] fst_conv snd_conv
    by simp
qed

lemma add_one_movement:
  assumes "it \<in> item_names d" and "it \<noteq> []"
  shows "add_inventory_movement date [movement_of it ob si so sr] d =
           (Inr (),
            d\<lparr>inventory_movements :=
                insert_row (mk_movement_row date (movement_of it ob si so sr))
                  (inventory_movements d)\<rparr>)"
  using assms
  by (simp add: add_inventory_movement_def with_conn_def insert_movement_def movement_of_def
      truthy_str_def)

lemma mk_movement_row_fields:
  "mk_movement_row date r rid =
     \<lparr>mv_id = rid, mv_date = date, mv_item = the (m_item r),
      opening_balance = sql_real (double_or0 (m_opening_balance r)),
      stock_in = sql_real (double_or0 (m_stock_in r)),
      stock_out = sql_real (double_or0 (m_stock_out r)),
      stock_returning_today = sql_real (double_or0 (m_stock_returning_today r)),
      closing_balance =
        sql_add (sql_sub (sql_add (sql_real (double_or0 (m_opening_balance r)))
                                  (sql_real (double_or0 (m_stock_in r))))
                         (sql_real (double_or0 (m_stock_out r))))
                (sql_real (double_or0 (m_stock_returning_today r))),
      stock_remaining =
        sql_add (sql_sub (sql_add (sql_real (double_or0 (m_opening_balance r)))
                                  (sql_real (double_or0 (m_stock_in r))))
                         (sql_real (double_or0 (m_stock_out r))))
                (sql_real (double_or0 (m_stock_returning_today r)))\<rparr>"
  by (simp add: mk_movement_row_def Let_def)

lemma mk_movement_row_closing:
  "stock_remaining (mk_movement_row date r rid) = closing_balance (mk_movement_row date r rid) \<and>
   closing_balance (mk_movement_row date r rid) =
     sql_add (sql_sub (sql_add (opening_balance (mk_movement_row date r rid))
                               (stock_in (mk_movement_row date r rid)))
                      (stock_out (mk_movement_row date r rid)))
             (stock_returning_today (mk_movement_row date r rid))"
  by (simp add: mk_movement_row_def Let_def)

section \<open>Saving an invoice without reconciliation\<close>

lemma sql_real_Some: "x \<noteq> NaN \<Longrightarrow> sql_real x = Some x"
  by (simp add: sql_real_def)

lemma app_line_storable_upd [simp]:
  "app_line_storable (d\<lparr>app_invoice_lines := t\<rparr>) = app_line_storable d"
  by (simp add: app_line_storable_def fun_eq_iff)

lemma app_insert_lines_ok:
  "iid \<in> ai_id ` set (rows (app_invoices d)) \<Longrightarrow>
   list_all (app_line_storable d) ls \<Longrightarrow>
   app_insert_lines iid i ls d =
     Inr (d\<lparr>app_invoice_lines := add_rows (app_line_mks iid i ls) (app_invoice_lines d)\<rparr>)"
proof (induction ls arbitrary: i d)
  case Nil
  then show ?case by (simp add: app_line_mks_def)
next
  case (Cons l ls)
  from Cons.prems have tl_ok: "list_all (app_line_storable d) ls" by simp
  show ?case
  proof (cases "truthy_str (ln_item l)")
    case False
    with Cons.IH [OF Cons.prems(1) tl_ok] show ?thesis by (simp add: app_line_mks_def)
  next
    case True
    let ?d1 = "d\<lparr>app_invoice_lines :=
                  insert_row (mk_app_line_row iid i l (double_or0 (ln_unit_price l))
                                (double_or0 (ln_qty l))) (app_invoice_lines d)\<rparr>"
    from True Cons.prems have "app_insert_invoice_line iid i l d = Inr ?d1"
      by (simp add: app_insert_invoice_line_def app_line_storable_def sql_real_Some)
    moreover have "app_insert_lines iid (Suc i) ls ?d1 =
        Inr (?d1\<lparr>app_invoice_lines := add_rows (app_line_mks iid (Suc i) ls) (app_invoice_lines ?d1)\<rparr>)"
      using Cons.prems(1) tl_ok by (intro Cons.IH) simp_all
    ultimately show ?thesis using True by (simp add: app_line_mks_def)
  qed
qed

lemma app_insert_invoice_line_cases:
  "(\<exists>m. app_insert_invoice_line iid i l d = Inl (IntegrityError m)) \<or>
   app_insert_invoice_line iid i l d =
     Inr (d\<lparr>app_invoice_lines :=
             insert_row (mk_app_line_row iid i l (double_or0 (ln_unit_price l))
                           (double_or0 (ln_qty l))) (app_invoice_lines d)\<rparr>)"
  by (simp add: app_insert_invoice_line_def sql_real_def not_null_error_def fk_error_def)

lemma app_insert_invoice_line_fails:
  "truthy_str (ln_item l) \<Longrightarrow> \<not> app_line_storable d l \<Longrightarrow>
   \<exists>m. app_insert_invoice_line iid i l d = Inl (IntegrityError m)"
  by (auto simp: app_insert_invoice_line_def app_line_storable_def sql_real_def not_null_error_def
      fk_error_def)

lemma app_insert_lines_fails:
  "\<not> list_all (app_line_storable d) ls \<Longrightarrow>
   \<exists>m. app_insert_lines iid i ls d = Inl (IntegrityError m)"
proof (induction ls arbitrary: i d)
  case Nil
  then show ?case by simp
next
  case (Cons l ls)
  show ?case
  proof (cases "truthy_str (ln_item l)")
    case False
    then have "app_line_storable d l" by (simp add: app_line_storable_def)
    with Cons.prems have "\<not> list_all (app_line_storable d) ls" by simp
    from Cons.IH [OF this, of "Suc i"] False show ?thesis by simp
  next
    case True
    note item = this
    show ?thesis
    proof (cases "app_line_storable d l")
      case False
      from app_insert_invoice_line_fails [OF item False, of iid i] item show ?thesis
        by auto
    next
      case True
      let ?d1 = "d\<lparr>app_invoice_lines :=
                    insert_row (mk_app_line_row iid i l (double_or0 (ln_unit_price l))
                                  (double_or0 (ln_qty l))) (app_invoice_lines d)\<rparr>"
      from True Cons.prems have "\<not> list_all (app_line_storable ?d1) ls" by simp
      from Cons.IH [OF this, of "Suc i"] obtain m where
        rest: "app_insert_lines iid (Suc i) ls ?d1 = Inl (IntegrityError m)" ..
      from app_insert_invoice_line_cases [of iid i l d] show ?thesis
      proof
        assume "\<exists>m. app_insert_invoice_line iid i l d = Inl (IntegrityError m)"
        with item show ?thesis by auto
      next
        assume "app_insert_invoice_line iid i l d = Inr ?d1"
        with item rest show ?thesis by simp
      qed
    qed
  qed
qed

lemma fsub_or0: "fsub t (if truthy_float c then c else Finite 0) = fsub t c"
  by (simp add: truthy_float_def)

lemma app_insert_invoice_ok:
  "tot \<noteq> NaN \<Longrightarrow> coll \<noteq> NaN \<Longrightarrow> du \<noteq> NaN \<Longrightarrow>
   app_insert_invoice date name tot coll du notes d =
     Inr (d\<lparr>app_invoices := insert_row (mk_app_invoice_row date name tot coll du notes) (app_invoices d)\<rparr>)"
  by (simp add: app_insert_invoice_def sql_real_def)

lemma app_insert_invoice_fails:
  "tot = NaN \<or> coll = NaN \<or> du = NaN \<Longrightarrow>
   \<exists>m. app_insert_invoice date name tot coll du notes d = Inl (IntegrityError m)"
  by (auto simp: app_insert_invoice_def sql_real_def not_null_error_def)

lemma app_create_invoice_ok:
  assumes "app_storable ls coll d"
  shows "fst (app_create_invoice date p ls coll notes d) = Inr (Suc (seq (app_invoices d))) \<and>
         app_invoices (snd (app_create_invoice date p ls coll notes d)) =
           insert_row (mk_app_invoice_row date (strip p) (app_total ls) coll
                         (fsub (app_total ls) coll) notes) (app_invoices d) \<and>
         app_invoice_lines (snd (app_create_invoice date p ls coll notes d)) =
           add_rows (app_line_mks (Suc (seq (app_invoices d))) 1 ls) (app_invoice_lines d)"
proof -
  let ?iid = "Suc (seq (app_invoices d))"
  let ?d1 = "d\<lparr>app_invoices :=
                insert_row (mk_app_invoice_row date (strip p) (app_total ls) coll
                              (fsub (app_total ls) coll) notes) (app_invoices d)\<rparr>"
  from assms have nn: "app_total ls \<noteq> NaN" "coll \<noteq> NaN" "fsub (app_total ls) coll \<noteq> NaN"
    and st: "list_all (app_line_storable d) ls"
    by (simp_all add: app_storable_def)
  have inv: "app_insert_invoice date (strip p) (app_total ls) coll (fsub (app_total ls) coll) notes d
      = Inr ?d1"
    using nn by (rule app_insert_invoice_ok)
  have iid: "seq (app_invoices ?d1) = ?iid" by (simp add: insert_row_def)
  have mem: "?iid \<in> ai_id ` set (rows (app_invoices ?d1))"
    by (simp add: insert_row_def mk_app_invoice_row_def)
  have st1: "list_all (app_line_storable ?d1) ls"
    using st by (simp add: app_line_storable_def list_all_iff)
  have lines: "app_insert_lines ?iid 1 ls ?d1 =
      Inr (?d1\<lparr>app_invoice_lines := add_rows (app_line_mks ?iid 1 ls) (app_invoice_lines ?d1)\<rparr>)"
    using mem st1 by (rule app_insert_lines_ok)
  show ?thesis
    unfolding app_create_invoice_def Let_def fsub_or0 app_with_conn_def inv sum.case iid lines
    by (simp add: app_insert_collection_def sql_real_Some nn)
qed

lemma app_create_invoice_fails:
  assumes "\<not> app_storable ls coll d"
  shows "\<exists>m. app_create_invoice date p ls coll notes d = (Inl (IntegrityError m), d)"
proof (cases "app_total ls = NaN \<or> coll = NaN \<or> fsub (app_total ls) coll = NaN")
  case True
  from app_insert_invoice_fails [OF True, of date "strip p" "notes" d] obtain m where
    "app_insert_invoice date (strip p) (app_total ls) coll (fsub (app_total ls) coll) notes d
      = Inl (IntegrityError m)" ..
  then show ?thesis
    unfolding app_create_invoice_def Let_def fsub_or0 app_with_conn_def
    by simp
next
  case False
  let ?iid = "Suc (seq (app_invoices d))"
  let ?d1 = "d\<lparr>app_invoices :=
                insert_row (mk_app_invoice_row date (strip p) (app_total ls) coll
                              (fsub (app_total ls) coll) notes) (app_invoices d)\<rparr>"
  from False have inv: "app_insert_invoice date (strip p) (app_total ls) coll
      (fsub (app_total ls) coll) notes d = Inr ?d1"
    by (intro app_insert_invoice_ok) simp_all
  have iid: "seq (app_invoices ?d1) = ?iid" by (simp add: insert_row_def)
  from False assms have "\<not> list_all (app_line_storable d) ls"
    by (simp add: app_storable_def)
  then have "\<not> list_all (app_line_storable ?d1) ls"
    by (simp add: app_line_storable_def list_all_iff)
  from app_insert_lines_fails [OF this, of ?iid 1] obtain m where
    lines: "app_insert_lines ?iid 1 ls ?d1 = Inl (IntegrityError m)" ..
  show ?thesis
    unfolding app_create_invoice_def Let_def fsub_or0 app_with_conn_def inv sum.case iid lines
    by simp
qed

section \<open>Rounded amounts\<close>

lemma round_double_43: "round_double (43 / 100) = Finite (7746191359077253 / 18014398509481984)"
  by (subst round_double_at [of "- 2"]) (simp_all add: round_half_even_def Let_def)

lemma round_double_34: "round_double (34 / 100) = Finite (6124895493223875 / 18014398509481984)"
  by (subst round_double_at [of "- 2"]) (simp_all add: round_half_even_def Let_def)

lemma round_double_86:
  "round_double (7746191359077253 / 9007199254740992) = Finite (7746191359077253 / 9007199254740992)"
  by (subst round_double_at [of "- 1"]) (simp_all add: round_half_even_def Let_def)

lemma round_double_52:
  "round_double (9367487224930631 / 18014398509481984) = Finite (1170935903116329 / 2251799813685248)"
  by (subst round_double_at [of "- 1"]) (simp_all add: round_half_even_def Let_def)

lemma round_double_86_up:
  "round_double (15492382718154507 / 18014398509481984) = Finite (3873095679538627 / 4503599627370496)"
  by (subst round_double_at [of "- 1"]) (simp_all add: round_half_even_def Let_def)

lemma round_double_20: "round_double 20 = Finite 20"
  by (subst round_double_at [of 4]) (simp_all add: round_half_even_def Let_def)

lemma round_double_15: "round_double 15 = Finite 15"
  by (subst round_double_at [of 3]) (simp_all add: round_half_even_def Let_def)

lemma sample_total:
  "app_total [app_line_of ''A'' (Finite (7746191359077253 / 18014398509481984)) (Finite 2)] =
     Finite (7746191359077253 / 9007199254740992)"
  by (simp add: app_total_def float_sum_def app_line_of_def get_or_def round_double_86)

lemma sample_due:
  "fsub (Finite (7746191359077253 / 9007199254740992))
        (Finite (6124895493223875 / 18014398509481984)) =
     Finite (1170935903116329 / 2251799813685248)"
  by (simp add: fsub_def round_double_52)

lemma sample_sum:
  "fadd (Finite (6124895493223875 / 18014398509481984))
        (Finite (1170935903116329 / 2251799813685248)) =
     Finite (3873095679538627 / 4503599627370496)"
  by (simp add: round_double_86_up)

section \<open>Looking tables up\<close>

lemma find_table_Nil [simp]: "find_table n [] = None"
  by (simp add: find_table_def)

lemma find_table_Cons:
  "find_table n ((m, t) # rest) = (if same_name m n then Some (m, t) else find_table n rest)"
  by (simp add: find_table_def)

lemma find_table_append:
  "find_table n (xs @ ys) = (case find_table n xs of None \<Rightarrow> find_table n ys | Some x \<Rightarrow> Some x)"
  by (induction xs) (auto simp: find_table_Cons)

lemma has_table_names: "has_table n cat \<longleftrightarrow> (\<exists>m \<in> set (map fst cat). same_name m n)"
  by (force simp: has_table_def find_table_def find_None_iff)

lemma same_name_refl [simp]: "same_name n n"
  by (simp add: same_name_def)

section \<open>Creating a table\<close>

lemma create_noop: "has_table n cat \<Longrightarrow> create_table_if_not_exists n cols cat = cat"
  by (auto simp: create_table_if_not_exists_def has_table_def)

lemma create_append:
  "\<exists>ys. create_table_if_not_exists n cols cat = cat @ ys"
  by (auto simp: create_table_if_not_exists_def split: option.splits)

lemma has_table_create_same [simp]: "has_table n (create_table_if_not_exists n cols cat)"
  by (auto simp: create_table_if_not_exists_def has_table_def find_table_append find_table_Cons
      split: option.splits)

lemma has_table_create_mono [simp]:
  "has_table m cat \<Longrightarrow> has_table m (create_table_if_not_exists n cols cat)"
  by (auto simp: create_table_if_not_exists_def has_table_def find_table_append
      split: option.splits)

lemma find_table_create_found:
  "has_table m cat \<Longrightarrow> find_table m (create_table_if_not_exists n cols cat) = find_table m cat"
  by (auto simp: create_table_if_not_exists_def has_table_def find_table_append
      split: option.splits)

lemma table_has_column_create:
  "has_table m cat \<Longrightarrow>
   table_has_column (create_table_if_not_exists n cols cat) m c = table_has_column cat m c"
  by (simp add: table_has_column_def table_info_def find_table_create_found)

lemma has_all_init: "has_all (init_db_schema cat)"
  by (simp add: has_all_def schema_tables_def init_db_schema_def)

lemma init_noop: "has_all cat \<Longrightarrow> init_db_schema cat = cat"
  by (simp add: has_all_def schema_tables_def init_db_schema_def create_noop)

lemma init_append: "\<exists>ys. init_db_schema cat = cat @ ys"
proof -
  have step: "\<exists>zs. create_table_if_not_exists n cols c = cat @ zs" if "\<exists>ys. c = cat @ ys"
    for n cols and c :: "'a catalogue"
  proof -
    from that obtain ys where "c = cat @ ys" by blast
    moreover obtain ws where "create_table_if_not_exists n cols c = c @ ws"
      using create_append by blast
    ultimately show ?thesis by simp
  qed
  have "\<exists>ys. cat = cat @ ys" by simp
  then show ?thesis
    unfolding init_db_schema_def by (intro step)
qed

section \<open>Adding a column\<close>

lemma map_fst_add_column [simp]: "map fst (add_column_to n c cat) = map fst cat"
  by (induction cat) auto

lemma length_add_column [simp]: "length (add_column_to n c cat) = length cat"
  by (induction cat) auto

lemma has_table_add_column [simp]: "has_table m (add_column_to n c cat) = has_table m cat"
  by (simp add: has_table_names)

lemma find_table_add_column:
  "find_table n (add_column_to n c cat) =
     map_option (\<lambda>(m, t). (m, t\<lparr>t_cols := t_cols t @ [c]\<rparr>)) (find_table n cat)"
  by (induction cat) (auto simp: find_table_Cons)

lemma alter_Inr:
  "alter_table_add_column n c cat = Inr cat' \<Longrightarrow> cat' = add_column_to n c cat \<and> has_table n cat"
  by (auto simp: alter_table_add_column_def has_table_def split: option.splits if_splits)

lemma table_has_column_altered:
  assumes "alter_table_add_column n c cat = Inr cat'" and "\<not> cgenerated c"
  shows "table_has_column cat' n (cname c)"
    and "table_info n cat' = table_info n cat @ [c]"
proof -
  from alter_Inr [OF assms(1)] have cat': "cat' = add_column_to n c cat" and "has_table n cat"
    by simp_all
  then obtain m t where f: "find_table n cat = Some (m, t)"
    by (auto simp: has_table_def)
  show "table_info n cat' = table_info n cat @ [c]"
    using assms(2) by (simp add: table_info_def cat' find_table_add_column f)
  then show "table_has_column cat' n (cname c)"
    by (simp add: table_has_column_def)
qed

lemma has_all_add_column [simp]: "has_all (add_column_to n c cat) = has_all cat"
  by (simp add: has_all_def)

section \<open>Running the migration on a complete schema\<close>

lemma migrate_complete:
  assumes "has_all cat"
  shows "migrate_db cat =
           (if table_has_column cat ''invoice_lines'' ''highlight'' then (Inr (), cat)
            else case alter_table_add_column ''invoice_lines'' highlight_col cat of
                   Inl e \<Rightarrow> (Inl e, cat)
                 | Inr cat1 \<Rightarrow> (Inr (), cat1))"
proof -
  from assms have t: "has_table ''invoice_collections'' cat" "has_table ''invoice_dues'' cat"
    by (simp_all add: has_all_def schema_tables_def)
  show ?thesis
  proof (cases "table_has_column cat ''invoice_lines'' ''highlight''")
    case True
    with t show ?thesis by (simp add: migrate_db_def create_noop)
  next
    case False
    show ?thesis
    proof (cases "alter_table_add_column ''invoice_lines'' highlight_col cat")
      case (Inl e)
      with False show ?thesis by (simp add: migrate_db_def)
    next
      case (Inr cat1)
      from alter_Inr [OF Inr] t have
        "has_table ''invoice_collections'' cat1" "has_table ''invoice_dues'' cat1"
        by simp_all
      with False Inr show ?thesis by (simp add: migrate_db_def create_noop)
    qed
  qed
qed

lemma highlight_col_plain [simp]:
  "cname highlight_col = ''highlight''" "\<not> cgenerated highlight_col"
  by (simp_all add: highlight_col_def plain_def)

lemma migrate_idem:
  assumes "has_all cat"
  shows "has_all (snd (migrate_db cat)) \<and> migrate_db (snd (migrate_db cat)) = migrate_db cat"
proof (cases "table_has_column cat ''invoice_lines'' ''highlight''")
  case True
  with assms show ?thesis by (simp add: migrate_complete)
next
  case False
  show ?thesis
  proof (cases "alter_table_add_column ''invoice_lines'' highlight_col cat")
    case (Inl e)
    with False assms show ?thesis by (simp add: migrate_complete)
  next
    case (Inr cat1)
    from alter_Inr [OF Inr] assms have all1: "has_all cat1" by simp
    from table_has_column_altered(1) [OF Inr] have "table_has_column cat1 ''invoice_lines'' ''highlight''"
      by simp
    with False Inr assms all1 show ?thesis by (simp add: migrate_complete)
  qed
qed

lemma setup_idem: "setup_schema (snd (setup_schema cat)) = setup_schema cat"
proof -
  from migrate_idem [OF has_all_init, of cat] show ?thesis
    by (simp add: setup_schema_def init_noop)
qed

lemma setup_times: "setup_schema_times (Suc n) cat = setup_schema cat"
proof (induction n arbitrary: cat)
  case 0
  show ?case by (cases "setup_schema cat") (auto split: sum.splits)
next
  case (Suc n)
  obtain r c where sc: "setup_schema cat = (r, c)" by (cases "setup_schema cat")
  show ?case
  proof (cases r)
    case (Inl e)
    with sc show ?thesis by simp
  next
    case (Inr u)
    have "setup_schema_times (Suc (Suc n)) cat = setup_schema_times (Suc n) c"
      using sc Inr by simp
    also have "\<dots> = setup_schema c" by (rule Suc.IH)
    also have "\<dots> = setup_schema cat" using setup_idem [of cat] sc by simp
    finally show ?thesis .
  qed
qed

section \<open>Nothing is dropped, renamed or rewritten\<close>

lemma extends_refl [simp]: "extends cat cat"
  by (simp add: extends_def)

lemma extends_trans:
  assumes "extends a b" and "extends b c"
  shows "extends a c"
proof -
  from assms have l: "length a \<le> length b" "length b \<le> length c"
    by (simp_all add: extends_def)
  have "fst (c ! i) = fst (a ! i) \<and> t_rows (snd (c ! i)) = t_rows (snd (a ! i)) \<and>
        prefix (t_cols (snd (a ! i))) (t_cols (snd (c ! i)))" if "i < length a" for i
  proof -
    from that l have ib: "i < length b" by simp
    from assms(1) that have ab: "fst (b ! i) = fst (a ! i)"
      "t_rows (snd (b ! i)) = t_rows (snd (a ! i))"
      "prefix (t_cols (snd (a ! i))) (t_cols (snd (b ! i)))"
      by (simp_all add: extends_def)
    from assms(2) ib have bc: "fst (c ! i) = fst (b ! i)"
      "t_rows (snd (c ! i)) = t_rows (snd (b ! i))"
      "prefix (t_cols (snd (b ! i))) (t_cols (snd (c ! i)))"
      by (simp_all add: extends_def)
    from ab(3) bc(3) have "prefix (t_cols (snd (a ! i))) (t_cols (snd (c ! i)))"
      by (rule prefix_order.order_trans)
    with ab bc show ?thesis by simp
  qed
  with l show ?thesis by (simp add: extends_def)
qed

lemma extends_append [simp]: "extends cat (cat @ ys)"
  by (simp add: extends_def nth_append)

lemma extends_create: "extends cat (create_table_if_not_exists n cols cat)"
  using create_append [of n cols cat] by auto

lemma extends_init: "extends cat (init_db_schema cat)"
  using init_append [of cat] by auto

lemma add_column_nth:
  "i < length cat \<Longrightarrow>
   fst (add_column_to n c cat ! i) = fst (cat ! i) \<and>
   t_rows (snd (add_column_to n c cat ! i)) = t_rows (snd (cat ! i)) \<and>
   prefix (t_cols (snd (cat ! i))) (t_cols (snd (add_column_to n c cat ! i)))"
proof (induction cat arbitrary: i)
  case Nil
  then show ?case by simp
next
  case (Cons a cat)
  obtain m t where a: "a = (m, t)" by (cases a)
  show ?case
  proof (cases i)
    case 0
    then show ?thesis by (simp add: a)
  next
    case (Suc j)
    with Cons.prems have "j < length cat" by simp
    from Cons.IH [OF this] Suc show ?thesis by (simp add: a)
  qed
qed

lemma extends_add_column: "extends cat (add_column_to n c cat)"
  by (simp add: extends_def add_column_nth)

lemma extends_migrate: "extends cat (snd (migrate_db cat))"
proof (cases "if \<not> table_has_column cat ''invoice_lines'' ''highlight''
              then alter_table_add_column ''invoice_lines'' highlight_col cat else Inr cat")
  case (Inl e)
  then show ?thesis by (simp add: migrate_db_def)
next
  case (Inr cat1)
  then have "cat1 = cat \<or> cat1 = add_column_to ''invoice_lines'' highlight_col cat"
    by (auto split: if_splits dest: alter_Inr)
  then have e1: "extends cat cat1" by (auto simp: extends_add_column)
  have e2: "extends cat1 (create_table_if_not_exists ''invoice_collections''
      invoice_collections_cols cat1)" by (rule extends_create)
  have e3: "extends (create_table_if_not_exists ''invoice_collections''
      invoice_collections_cols cat1) (create_table_if_not_exists ''invoice_dues'' invoice_dues_cols
      (create_table_if_not_exists ''invoice_collections'' invoice_collections_cols cat1))"
    by (rule extends_create)
  from extends_trans [OF e1 extends_trans [OF e2 e3]] show ?thesis
    using Inr by (simp add: migrate_db_def)
qed

lemma extends_setup: "extends cat (snd (setup_schema cat))"
  unfolding setup_schema_def
  by (rule extends_trans [OF extends_init extends_migrate])

section \<open>Column names stay distinct\<close>

lemma lower_names:
  "lower ''items'' = ''items''"
  "lower ''inventory_movements'' = ''inventory_movements''"
  "lower ''invoices'' = ''invoices''"
  "lower ''invoice_lines'' = ''invoice_lines''"
  "lower ''invoice_collections'' = ''invoice_collections''"
  "lower ''invoice_dues'' = ''invoice_dues''"
  "lower ''collections'' = ''collections''"
  by (simp_all add: lower_def lower_char_def)

lemma lower_column_names:
  "lower ''id'' = ''id''" "lower ''date'' = ''date''" "lower ''item'' = ''item''"
  "lower ''rate'' = ''rate''" "lower ''opening_balance'' = ''opening_balance''"
  "lower ''stock_in'' = ''stock_in''" "lower ''stock_out'' = ''stock_out''"
  "lower ''stock_returning_today'' = ''stock_returning_today''"
  "lower ''closing_balance'' = ''closing_balance''" "lower ''stock_remaining'' = ''stock_remaining''"
  "lower ''person_name'' = ''person_name''" "lower ''total_amount'' = ''total_amount''"
  "lower ''collection_amount'' = ''collection_amount''" "lower ''due_amount'' = ''due_amount''"
  "lower ''notes'' = ''notes''" "lower ''invoice_id'' = ''invoice_id''"
  "lower ''line_no'' = ''line_no''" "lower ''unit_price'' = ''unit_price''"
  "lower ''qty'' = ''qty''" "lower ''units'' = ''units''" "lower ''highlight'' = ''highlight''"
  "lower ''amount'' = ''amount''" "lower ''method'' = ''method''" "lower ''shop_no'' = ''shop_no''"
  "lower ''note'' = ''note''"
  by (simp_all add: lower_def lower_char_def)

lemma cname_simps [simp]: "cname (plain n d) = n" "cname (generated n d) = n"
  "cgenerated (plain n d) = False" "cgenerated (generated n d) = True"
  by (simp_all add: plain_def generated_def)

lemma schema_cols_distinct:
  "distinct (map (\<lambda>c. lower (cname c)) items_cols)"
  "distinct (map (\<lambda>c. lower (cname c)) inventory_movements_cols)"
  "distinct (map (\<lambda>c. lower (cname c)) invoices_cols)"
  "distinct (map (\<lambda>c. lower (cname c)) invoice_lines_cols)"
  "distinct (map (\<lambda>c. lower (cname c)) invoice_collections_cols)"
  "distinct (map (\<lambda>c. lower (cname c)) invoice_dues_cols)"
  "distinct (map (\<lambda>c. lower (cname c)) collections_cols)"
  by (simp_all add: items_cols_def inventory_movements_cols_def invoices_cols_def
      invoice_lines_cols_def invoice_collections_cols_def invoice_dues_cols_def
      collections_cols_def highlight_col_def lower_column_names)

lemma distinct_create:
  "distinct (map (\<lambda>c. lower (cname c)) cols) \<Longrightarrow> distinct_columns cat \<Longrightarrow>
   distinct_columns (create_table_if_not_exists n cols cat)"
  by (auto simp: create_table_if_not_exists_def distinct_columns_def split: option.splits)

lemma distinct_init: "distinct_columns cat \<Longrightarrow> distinct_columns (init_db_schema cat)"
  unfolding init_db_schema_def
  by (intro distinct_create schema_cols_distinct)

lemma distinct_add_column:
  "find_table n cat = Some (m, t) \<Longrightarrow>
   lower (cname c) \<notin> set (map (\<lambda>c. lower (cname c)) (t_cols t)) \<Longrightarrow>
   distinct_columns cat \<Longrightarrow> distinct_columns (add_column_to n c cat)"
proof (induction cat)
  case Nil
  then show ?case by simp
next
  case (Cons a cat)
  obtain k u where a: "a = (k, u)" by (cases a)
  show ?case
  proof (cases "same_name k n")
    case True
    with Cons.prems a show ?thesis
      by (auto simp: find_table_Cons distinct_columns_def)
  next
    case False
    with Cons.prems a have "find_table n cat = Some (m, t)" "distinct_columns cat"
      by (auto simp: find_table_Cons distinct_columns_def)
    from Cons.IH [OF this(1) Cons.prems(2) this(2)] False Cons.prems(3) a show ?thesis
      by (auto simp: distinct_columns_def)
  qed
qed

lemma distinct_alter:
  assumes "alter_table_add_column n c cat = Inr cat'" and "distinct_columns cat"
  shows "distinct_columns cat'"
proof -
  from assms(1) obtain m t where f: "find_table n cat = Some (m, t)"
    and no: "\<not> list_ex (\<lambda>c'. same_name (cname c') (cname c)) (t_cols t)"
    and cat': "cat' = add_column_to n c cat"
    by (auto simp: alter_table_add_column_def split: option.splits if_splits)
  from no have "lower (cname c) \<notin> set (map (\<lambda>c. lower (cname c)) (t_cols t))"
    by (auto simp: list_ex_iff same_name_def)
  from distinct_add_column [OF f this assms(2)] cat' show ?thesis by simp
qed

lemma distinct_migrate: "distinct_columns cat \<Longrightarrow> distinct_columns (snd (migrate_db cat))"
proof (cases "if \<not> table_has_column cat ''invoice_lines'' ''highlight''
              then alter_table_add_column ''invoice_lines'' highlight_col cat else Inr cat")
  case (Inl e)
  assume "distinct_columns cat"
  with Inl show ?thesis by (simp add: migrate_db_def)
next
  case (Inr cat1)
  assume d: "distinct_columns cat"
  from Inr d have "distinct_columns cat1"
    by (auto split: if_splits dest: distinct_alter)
  then have "distinct_columns (create_table_if_not_exists ''invoice_dues'' invoice_dues_cols
      (create_table_if_not_exists ''invoice_collections'' invoice_collections_cols cat1))"
    by (intro distinct_create schema_cols_distinct)
  with Inr show ?thesis by (simp add: migrate_db_def)
qed

lemma distinct_setup: "distinct_columns cat \<Longrightarrow> distinct_columns (snd (setup_schema cat))"
  unfolding setup_schema_def by (intro distinct_migrate distinct_init)

section \<open>The highlight column\<close>

lemma table_has_column_found: "table_has_column cat n c \<Longrightarrow> has_table n cat"
  by (cases "find_table n cat") (auto simp: table_has_column_def table_info_def has_table_def)

lemma table_has_column_init:
  "has_table m cat \<Longrightarrow> table_has_column (init_db_schema cat) m c = table_has_column cat m c"
  by (simp add: init_db_schema_def table_has_column_create)

lemma setup_untouched:
  assumes "table_has_column cat ''invoice_lines'' ''highlight''"
  shows "setup_schema cat = (Inr (), init_db_schema cat)"
    and "take (length cat) (snd (setup_schema cat)) = cat"
proof -
  from table_has_column_init [OF table_has_column_found [OF assms]] assms
  have "table_has_column (init_db_schema cat) ''invoice_lines'' ''highlight''" by simp
  then show s: "setup_schema cat = (Inr (), init_db_schema cat)"
    by (simp add: setup_schema_def migrate_complete [OF has_all_init])
  from init_append [of cat] obtain ys where "init_db_schema cat = cat @ ys" by blast
  then show "take (length cat) (snd (setup_schema cat)) = cat"
    by (simp add: s)
qed

lemma setup_success:
  assumes "setup_schema cat = (Inr (), cat1)"
  shows "table_has_column cat1 ''invoice_lines'' ''highlight''"
    and "\<not> table_has_column (init_db_schema cat) ''invoice_lines'' ''highlight'' \<Longrightarrow>
         table_info ''invoice_lines'' cat1 =
           table_info ''invoice_lines'' (init_db_schema cat) @ [highlight_col]"
proof -
  let ?c0 = "init_db_schema cat"
  from assms have m: "migrate_db ?c0 = (Inr (), cat1)" by (simp add: setup_schema_def)
  show "table_has_column cat1 ''invoice_lines'' ''highlight''"
  proof (cases "table_has_column ?c0 ''invoice_lines'' ''highlight''")
    case True
    with m show ?thesis by (simp add: migrate_complete [OF has_all_init])
  next
    case False
    with m have "alter_table_add_column ''invoice_lines'' highlight_col ?c0 = Inr cat1"
      by (simp add: migrate_complete [OF has_all_init] split: sum.splits)
    from table_has_column_altered(1) [OF this] show ?thesis by simp
  qed
  show "table_info ''invoice_lines'' cat1 = table_info ''invoice_lines'' ?c0 @ [highlight_col]"
    if "\<not> table_has_column ?c0 ''invoice_lines'' ''highlight''"
  proof -
    from that m have "alter_table_add_column ''invoice_lines'' highlight_col ?c0 = Inr cat1"
      by (simp add: migrate_complete [OF has_all_init] split: sum.splits)
    from table_has_column_altered(2) [OF this] show ?thesis by simp
  qed
qed

section \<open>An old database file\<close>

lemma same_name_literals:
  "same_name a b = (lower a = lower b)"
  by (simp add: same_name_def)

lemma old_catalogue_init:
  "init_db_schema old_catalogue =
     old_catalogue @
     [(''inventory_movements'', \<lparr>t_cols = inventory_movements_cols, t_rows = []\<rparr>),
      (''invoices'', \<lparr>t_cols = invoices_cols, t_rows = []\<rparr>),
      (''invoice_collections'', \<lparr>t_cols = invoice_collections_cols, t_rows = []\<rparr>),
      (''invoice_dues'', \<lparr>t_cols = invoice_dues_cols, t_rows = []\<rparr>),
      (''collections'', \<lparr>t_cols = collections_cols, t_rows = []\<rparr>)]"
  by (simp add: init_db_schema_def old_catalogue_def create_table_if_not_exists_def
      find_table_def same_name_def lower_names)

lemma old_catalogue_setup: "setup_schema old_catalogue = (Inr (), new_catalogue)"
  unfolding setup_schema_def old_catalogue_init
  by (simp add: migrate_db_def old_catalogue_def new_catalogue_def table_has_column_def
      table_info_def alter_table_add_column_def create_table_if_not_exists_def find_table_def
      same_name_def lower_names lower_column_names app_invoice_lines_cols_def highlight_col_def)

lemma old_catalogue_distinct: "distinct_columns old_catalogue"
  by (simp add: distinct_columns_def old_catalogue_def items_cols_def app_invoice_lines_cols_def
      lower_column_names)

lemma old_catalogue_no_highlight:
  "\<not> table_has_column (init_db_schema old_catalogue) ''invoice_lines'' ''highlight''"
  unfolding old_catalogue_init
  by (simp add: old_catalogue_def table_has_column_def table_info_def find_table_def
      same_name_def lower_names app_invoice_lines_cols_def)

lemma new_catalogue_columns:
  "map cname (table_info ''invoice_lines'' new_catalogue) =
     [''id'', ''invoice_id'', ''line_no'', ''item'', ''unit_price'', ''qty'', ''units'', ''highlight'']"
  by (simp add: new_catalogue_def table_info_def find_table_def same_name_def lower_names
      app_invoice_lines_cols_def)

section \<open>Reconciliation failure\<close>

text \<open>
  C1. Whenever the line total differs from collections plus dues by 0.005 or more,
  \<^verbatim>\<open>create_invoice\<close> of the reconciling variant fails: it returns \<open>ok = False\<close> with the
  invoice id \<open>-1\<close>, its message carries the three computed figures (total, collections
  total, dues total, each with two decimals), and the database comes back unchanged, so
  no row is written to any table.
\<close>

theorem create_invoice_reconciliation_failure:
  assumes "\<bar>invoice_total ls - (coll_total cs + due_total ds)\<bar> \<ge> 0.005"
  shows "create_invoice date person ls cs ds notes d =
           (Inr (False,
                 ''Total ('' @ fmt2 (invoice_total ls) @ '') must equal Collections ('' @
                 fmt2 (coll_total cs) @ '') + Dues ('' @ fmt2 (due_total ds) @ '').'',
                 - 1), d)"
  using assms by (simp add: create_invoice_def reconciles_def reconcile_msg_def)

theorem create_invoice_reconciliation_failure_witness:
  "\<bar>invoice_total [line_of ''A'' 50 2] -
      (coll_total [coll_of ''UPI'' 60] + due_total [due_of ''S1'' 30])\<bar> \<ge> 0.005 \<and>
   create_invoice ''2025-10-01'' ''Asha'' [line_of ''A'' 50 2] [coll_of ''UPI'' 60]
       [due_of ''S1'' 30] '''' shop_db =
     (Inr (False, ''Total (100.00) must equal Collections (60.00) + Dues (30.00).'', - 1), shop_db)"
proof -
  have t: "invoice_total [line_of ''A'' 50 2] = 100"
    by (simp add: invoice_total_def py_sum_def get_or_def line_of_def)
  have c: "coll_total [coll_of ''UPI'' 60] = 60"
    by (simp add: coll_total_def py_sum_def get_or_def coll_of_def)
  have u: "due_total [due_of ''S1'' 30] = 30"
    by (simp add: due_total_def py_sum_def get_or_def due_of_def)
  have f100: "fmt2 100 = ''100.00''"
    by (simp add: fmt2_def round_half_even_def str_nat.simps digit_char_def)
  have f60: "fmt2 60 = ''60.00''"
    by (simp add: fmt2_def round_half_even_def str_nat.simps digit_char_def)
  have f30: "fmt2 30 = ''30.00''"
    by (simp add: fmt2_def round_half_even_def str_nat.simps digit_char_def)
  have h: "\<bar>invoice_total [line_of ''A'' 50 2] -
      (coll_total [coll_of ''UPI'' 60] + due_total [due_of ''S1'' 30])\<bar> \<ge> 0.005"
    by (simp add: t c u)
  from create_invoice_reconciliation_failure [OF h, of "''2025-10-01''" "''Asha''" "''''" shop_db] h
  show ?thesis by (simp add: t c u f100 f60 f30)
qed

section \<open>Reconciled invoices\<close>

text \<open>
  C2, as stated, fails. The line total of this invoice is 20 and its one collection is
  20.001: the difference is inside the tolerance, the invoice is saved, and the stored
  collection amount plus due amount is 20.001, not the stored total amount 20.
\<close>

theorem create_invoice_exact_counterexample:
  "\<bar>invoice_total [line_of ''A'' 10 2] - (coll_total [coll_of ''Cash'' 20.001] + due_total [])\<bar> < 0.005 \<and>
   fst (create_invoice ''2025-10-01'' ''Asha'' [line_of ''A'' 10 2] [coll_of ''Cash'' 20.001] []
          '''' shop_db) = Inr (True, ''Invoice #1 saved.'', 1) \<and>
   collection_amount (last (rows (invoices (snd (create_invoice ''2025-10-01'' ''Asha''
       [line_of ''A'' 10 2] [coll_of ''Cash'' 20.001] [] '''' shop_db))))) +
   due_amount (last (rows (invoices (snd (create_invoice ''2025-10-01'' ''Asha''
       [line_of ''A'' 10 2] [coll_of ''Cash'' 20.001] [] '''' shop_db))))) \<noteq>
   total_amount (last (rows (invoices (snd (create_invoice ''2025-10-01'' ''Asha''
       [line_of ''A'' 10 2] [coll_of ''Cash'' 20.001] [] '''' shop_db)))))"
proof -
  note t = invoice_total_single and c = coll_total_single and u = due_total_Nil
  have r: "reconciles [line_of ''A'' 10 2] [coll_of ''Cash'' 20.001] []"
    by (simp add: reconciles_def t c u)
  have l: "lines_reference_items [line_of ''A'' 10 2] (item_names shop_db)"
    by (simp add: shop_db_fields lines_reference_items_def line_of_def)
  have s: "dues_have_shop []"
    by (simp add: dues_have_shop_def)
  have ok: "create_invoice ''2025-10-01'' ''Asha'' [line_of ''A'' 10 2] [coll_of ''Cash'' 20.001] []
          '''' shop_db =
        (Inr (True, ''Invoice #1 saved.'', 1),
         saved_db ''2025-10-01'' ''Asha'' [line_of ''A'' 10 2] [coll_of ''Cash'' 20.001] [] '''' shop_db)"
    using create_invoice_ok [OF r l s, of "''2025-10-01''" "''Asha''" "''''"]
    by (simp add: shop_db_fields str_nat_1)
  show ?thesis
    unfolding ok fst_conv snd_conv rows_invoices_saved t c u
    by simp
qed

text \<open>
  C2, amended. Whenever collections plus dues meet the line total within 0.005, every
  line with a non-empty item names an item of the items table and every due with a
  positive amount has a shop number, \<^verbatim>\<open>create_invoice\<close> of the reconciling variant succeeds
  with the next invoice id, and the invoice row it stores holds the three computed
  figures: the stored total amount and the stored collection amount plus due amount agree
  within 0.005.
\<close>

theorem create_invoice_reconciled_saved:
  assumes "\<bar>invoice_total ls - (coll_total cs + due_total ds)\<bar> < 0.005"
    and "lines_reference_items ls (item_names d)"
    and "dues_have_shop ds"
  shows "fst (create_invoice date p ls cs ds notes d) =
           Inr (True, ''Invoice #'' @ str_nat (Suc (seq (invoices d))) @ '' saved.'',
                int (Suc (seq (invoices d)))) \<and>
         rows (invoices (snd (create_invoice date p ls cs ds notes d))) =
           rows (invoices d) @
           [\<lparr>inv_id = Suc (seq (invoices d)), inv_date = date, inv_person_name = strip p,
             total_amount = invoice_total ls, collection_amount = coll_total cs,
             due_amount = due_total ds, inv_notes = notes\<rparr>] \<and>
         \<bar>total_amount (last (rows (invoices (snd (create_invoice date p ls cs ds notes d))))) -
          (collection_amount (last (rows (invoices (snd (create_invoice date p ls cs ds notes d))))) +
           due_amount (last (rows (invoices (snd (create_invoice date p ls cs ds notes d))))))\<bar>
           < 0.005"
proof -
  from assms(1) have r: "reconciles ls cs ds" by (simp add: reconciles_def)
  show ?thesis
    using assms(1) by (simp add: create_invoice_ok [OF r assms(2,3)] rows_invoices_saved)
qed

theorem create_invoice_reconciled_saved_witness:
  "\<bar>invoice_total sample_lines - (coll_total sample_colls + due_total sample_dues)\<bar> < 0.005 \<and>
   lines_reference_items sample_lines (item_names shop_db) \<and>
   dues_have_shop sample_dues \<and>
   fst (create_invoice ''2025-10-01'' ''Asha'' sample_lines sample_colls sample_dues '''' shop_db) =
     Inr (True, ''Invoice #1 saved.'', 1) \<and>
   rows (invoices (snd (create_invoice ''2025-10-01'' ''Asha'' sample_lines sample_colls sample_dues
     '''' shop_db))) =
     [\<lparr>inv_id = 1, inv_date = ''2025-10-01'', inv_person_name = ''Asha'', total_amount = 25,
       collection_amount = 15, due_amount = 10, inv_notes = ''''\<rparr>]"
proof -
  have h: "\<bar>invoice_total sample_lines - (coll_total sample_colls + due_total sample_dues)\<bar> < 0.005"
    by (simp add: sample_totals)
  have sp: "strip ''Asha'' = ''Asha''"
    by (simp add: strip_def is_space_def)
  from create_invoice_reconciled_saved [OF h sample_lines_ok sample_dues_ok,
      of "''2025-10-01''" "''Asha''" "''''"] h sample_lines_ok sample_dues_ok
  show ?thesis
    by (simp add: shop_db_fields str_nat_1 sample_totals sp)
qed

section \<open>Setting the schema up again\<close>

text \<open>
  C3. Running \<^verbatim>\<open>init_db_schema\<close> followed by \<^verbatim>\<open>migrate_db\<close> any number of times in a row
  gives what one run gives, and a further run on the resulting database gives the same
  outcome and the same schema: after a successful run every re-run succeeds and changes
  nothing. A run keeps every existing table in place under its name, with its rows as
  they were and its columns as a prefix of the new ones; it leaves column names distinct;
  it touches no existing table when invoice lines already have the highlight column, and
  otherwise appends exactly that column, declared \<^verbatim>\<open>INTEGER NOT NULL DEFAULT 0\<close>.
\<close>

theorem setup_schema_idempotent:
  "setup_schema_times (Suc n) cat = setup_schema cat \<and>
   setup_schema (snd (setup_schema cat)) = setup_schema cat \<and>
   extends cat (snd (setup_schema cat)) \<and>
   (distinct_columns cat \<longrightarrow> distinct_columns (snd (setup_schema cat))) \<and>
   (table_has_column cat ''invoice_lines'' ''highlight'' \<longrightarrow>
      take (length cat) (snd (setup_schema cat)) = cat) \<and>
   (setup_schema cat = (Inr (), cat1) \<longrightarrow>
      setup_schema cat1 = (Inr (), cat1) \<and>
      table_has_column cat1 ''invoice_lines'' ''highlight'' \<and>
      (\<not> table_has_column (init_db_schema cat) ''invoice_lines'' ''highlight'' \<longrightarrow>
         table_info ''invoice_lines'' cat1 =
           table_info ''invoice_lines'' (init_db_schema cat) @
           [plain ''highlight'' ''INTEGER NOT NULL DEFAULT 0'']))"
proof (intro conjI impI)
  show "setup_schema_times (Suc n) cat = setup_schema cat"
    by (rule setup_times)
  show "setup_schema (snd (setup_schema cat)) = setup_schema cat"
    by (rule setup_idem)
  show "extends cat (snd (setup_schema cat))"
    by (rule extends_setup)
  show "distinct_columns (snd (setup_schema cat))" if "distinct_columns cat"
    using that by (rule distinct_setup)
  show "take (length cat) (snd (setup_schema cat)) = cat"
    if "table_has_column cat ''invoice_lines'' ''highlight''"
    using that by (rule setup_untouched(2))
next
  assume ok: "setup_schema cat = (Inr (), cat1)"
  from setup_idem [of cat] ok show "setup_schema cat1 = (Inr (), cat1)" by simp
  from setup_success(1) [OF ok] show "table_has_column cat1 ''invoice_lines'' ''highlight''" .
  assume "\<not> table_has_column (init_db_schema cat) ''invoice_lines'' ''highlight''"
  from setup_success(2) [OF ok this]
  show "table_info ''invoice_lines'' cat1 =
           table_info ''invoice_lines'' (init_db_schema cat) @
           [plain ''highlight'' ''INTEGER NOT NULL DEFAULT 0'']"
    by (simp add: highlight_col_def)
qed

theorem setup_schema_idempotent_witness:
  "setup_schema old_catalogue = (Inr (), new_catalogue) \<and>
   setup_schema new_catalogue = (Inr (), new_catalogue) \<and>
   setup_schema_times (Suc 2) old_catalogue = (Inr (), new_catalogue) \<and>
   distinct_columns old_catalogue \<and>
   distinct_columns new_catalogue \<and>
   extends old_catalogue new_catalogue \<and>
   \<not> table_has_column (init_db_schema old_catalogue) ''invoice_lines'' ''highlight'' \<and>
   table_has_column new_catalogue ''invoice_lines'' ''highlight'' \<and>
   take (length new_catalogue) (snd (setup_schema new_catalogue)) = new_catalogue \<and>
   map cname (table_info ''invoice_lines'' new_catalogue) =
     [''id'', ''invoice_id'', ''line_no'', ''item'', ''unit_price'', ''qty'', ''units'', ''highlight'']"
proof -
  note old = setup_schema_idempotent [of 2 old_catalogue new_catalogue]
  from old old_catalogue_setup have
    a: "setup_schema_times (Suc 2) old_catalogue = (Inr (), new_catalogue)" and
    b: "setup_schema new_catalogue = (Inr (), new_catalogue)" and
    c: "extends old_catalogue new_catalogue" and
    e: "table_has_column new_catalogue ''invoice_lines'' ''highlight''"
    by simp_all
  from old old_catalogue_setup old_catalogue_distinct have d: "distinct_columns new_catalogue"
    by simp
  from setup_schema_idempotent [of 0 new_catalogue new_catalogue] e
  have f: "take (length new_catalogue) (snd (setup_schema new_catalogue)) = new_catalogue"
    by blast
  from old_catalogue_setup a b c d e f old_catalogue_distinct old_catalogue_no_highlight
    new_catalogue_columns
  show ?thesis by blast
qed

section \<open>The line total\<close>

text \<open>
  C4. The total that \<^verbatim>\<open>create_invoice\<close> computes is the sum of unit price times quantity over
  every submitted line, whether or not the line is later stored, and that sum is the total
  amount of the invoice row a successful call stores.
\<close>

theorem invoice_total_all_lines:
  "invoice_total ls = (\<Sum>l\<leftarrow>ls. get_or 0 (l_unit_price l) * get_or 0 (l_qty l)) \<and>
   (fst (create_invoice date p ls cs ds notes d) = Inr (True, msg, i) \<longrightarrow>
      total_amount (last (rows (invoices (snd (create_invoice date p ls cs ds notes d))))) =
        (\<Sum>l\<leftarrow>ls. get_or 0 (l_unit_price l) * get_or 0 (l_qty l)))"
proof -
  have tot: "invoice_total ls = (\<Sum>l\<leftarrow>ls. get_or 0 (l_unit_price l) * get_or 0 (l_qty l))"
    by (simp add: invoice_total_def py_sum_sum_list)
  show ?thesis
  proof (intro conjI impI)
    show "invoice_total ls = (\<Sum>l\<leftarrow>ls. get_or 0 (l_unit_price l) * get_or 0 (l_qty l))"
      by (rule tot)
  next
    assume "fst (create_invoice date p ls cs ds notes d) = Inr (True, msg, i)"
    from create_invoice_saved_fst [OF this] tot
    show "total_amount (last (rows (invoices (snd (create_invoice date p ls cs ds notes d))))) =
        (\<Sum>l\<leftarrow>ls. get_or 0 (l_unit_price l) * get_or 0 (l_qty l))"
      by (simp add: rows_invoices_saved)
  qed
qed

theorem invoice_total_all_lines_witness:
  "fst (create_invoice ''2025-10-01'' ''Asha'' sample_lines sample_colls sample_dues '''' shop_db) =
     Inr (True, ''Invoice #1 saved.'', 1) \<and>
   invoice_total sample_lines = 10 * 2 + (5 * 1 + (10 * 0 + 0)) \<and>
   total_amount (last (rows (invoices (snd (create_invoice ''2025-10-01'' ''Asha'' sample_lines
     sample_colls sample_dues '''' shop_db))))) = 25 \<and>
   map line_no (rows (invoice_lines (snd (create_invoice ''2025-10-01'' ''Asha'' sample_lines
     sample_colls sample_dues '''' shop_db)))) = [1, 3]"
proof -
  have ok: "fst (create_invoice ''2025-10-01'' ''Asha'' sample_lines sample_colls sample_dues ''''
      shop_db) = Inr (True, ''Invoice #1 saved.'', 1)"
    by (simp add: sample_saved)
  have s: "(\<Sum>l\<leftarrow>sample_lines. get_or 0 (l_unit_price l) * get_or 0 (l_qty l)) = 25"
    by (simp add: sample_lines_def line_of_def get_or_def)
  from invoice_total_all_lines [of sample_lines "''2025-10-01''" "''Asha''" sample_colls sample_dues
      "''''" shop_db "''Invoice #1 saved.''" 1] ok
  show ?thesis
    by (simp add: s sample_saved sample_line_rows)
qed

section \<open>The collection and due totals\<close>

text \<open>
  C5. The collection total and the due total of \<^verbatim>\<open>create_invoice\<close> are the sums of every
  submitted amount; they are the figures of the reconciliation check and, on success, the
  stored collection amount and due amount. The loops of the same function that store the
  collection and due rows skip every amount that is not positive. The totals are the sums
  over the positive amounts, as the claim has them, whenever no submitted amount is
  negative. With a negative amount they are not: collections of 30 and -10 against a line
  total of 20 reconcile, the invoice is saved with a collection amount of 20, and the one
  collection row that is stored with it has the amount 30, which is also the sum of the
  positive amounts.
\<close>

theorem totals_count_negative_amounts:
  "coll_total cs = (\<Sum>c\<leftarrow>cs. get_or 0 (c_amount c)) \<and>
   due_total ds = (\<Sum>u\<leftarrow>ds. get_or 0 (d_amount u)) \<and>
   ((\<forall>c \<in> set cs. 0 \<le> get_or 0 (c_amount c)) \<longrightarrow>
      coll_total cs = (\<Sum>c\<leftarrow>filter (\<lambda>c. 0 < get_or 0 (c_amount c)) cs. get_or 0 (c_amount c))) \<and>
   ((\<forall>u \<in> set ds. 0 \<le> get_or 0 (d_amount u)) \<longrightarrow>
      due_total ds = (\<Sum>u\<leftarrow>filter (\<lambda>u. 0 < get_or 0 (d_amount u)) ds. get_or 0 (d_amount u))) \<and>
   reconciles ls cs ds = (\<bar>invoice_total ls - (coll_total cs + due_total ds)\<bar> < 0.005) \<and>
   (fst (create_invoice date p ls cs ds notes d) = Inr (True, msg, i) \<longrightarrow>
      collection_amount (last (rows (invoices (snd (create_invoice date p ls cs ds notes d))))) =
        coll_total cs \<and>
      due_amount (last (rows (invoices (snd (create_invoice date p ls cs ds notes d))))) =
        due_total ds) \<and>
   fst (create_invoice ''2025-10-01'' ''Asha'' [line_of ''A'' 10 2]
          [coll_of ''Cash'' 30, coll_of ''Cash'' (- 10)] [] '''' shop_db) =
     Inr (True, ''Invoice #1 saved.'', 1) \<and>
   collection_amount (last (rows (invoices (snd (create_invoice ''2025-10-01'' ''Asha''
       [line_of ''A'' 10 2] [coll_of ''Cash'' 30, coll_of ''Cash'' (- 10)] [] '''' shop_db))))) = 20 \<and>
   map ic_amount (rows (invoice_collections (snd (create_invoice ''2025-10-01'' ''Asha''
       [line_of ''A'' 10 2] [coll_of ''Cash'' 30, coll_of ''Cash'' (- 10)] [] '''' shop_db)))) = [30] \<and>
   (\<Sum>c\<leftarrow>filter (\<lambda>c. 0 < get_or 0 (c_amount c)) [coll_of ''Cash'' 30, coll_of ''Cash'' (- 10)].
      get_or 0 (c_amount c)) = 30"
proof (intro conjI impI)
  show c: "coll_total cs = (\<Sum>c\<leftarrow>cs. get_or 0 (c_amount c))"
    by (simp add: coll_total_def py_sum_sum_list)
  show u: "due_total ds = (\<Sum>u\<leftarrow>ds. get_or 0 (d_amount u))"
    by (simp add: due_total_def py_sum_sum_list)
  show "coll_total cs = (\<Sum>c\<leftarrow>filter (\<lambda>c. 0 < get_or 0 (c_amount c)) cs. get_or 0 (c_amount c))"
    if "\<forall>c \<in> set cs. 0 \<le> get_or 0 (c_amount c)"
    using sum_list_filter_pos [OF that] c by simp
  show "due_total ds = (\<Sum>u\<leftarrow>filter (\<lambda>u. 0 < get_or 0 (d_amount u)) ds. get_or 0 (d_amount u))"
    if "\<forall>u \<in> set ds. 0 \<le> get_or 0 (d_amount u)"
    using sum_list_filter_pos [OF that] u by simp
  show "reconciles ls cs ds = (\<bar>invoice_total ls - (coll_total cs + due_total ds)\<bar> < 0.005)"
    by (simp add: reconciles_def)
  show "collection_amount (last (rows (invoices (snd (create_invoice date p ls cs ds notes d))))) =
        coll_total cs"
    if "fst (create_invoice date p ls cs ds notes d) = Inr (True, msg, i)"
    using create_invoice_saved_fst [OF that] by (simp add: rows_invoices_saved)
  show "due_amount (last (rows (invoices (snd (create_invoice date p ls cs ds notes d))))) =
        due_total ds"
    if "fst (create_invoice date p ls cs ds notes d) = Inr (True, msg, i)"
    using create_invoice_saved_fst [OF that] by (simp add: rows_invoices_saved)
next
  have t: "coll_total [coll_of ''Cash'' 30, coll_of ''Cash'' (- 10)] = 20"
    by (simp add: coll_total_def py_sum_def get_or_def coll_of_def)
  have r: "reconciles [line_of ''A'' 10 2] [coll_of ''Cash'' 30, coll_of ''Cash'' (- 10)] []"
    by (simp add: reconciles_def invoice_total_single t due_total_Nil)
  have l: "lines_reference_items [line_of ''A'' 10 2] (item_names shop_db)"
    by (simp add: shop_db_fields lines_reference_items_def line_of_def)
  have s: "dues_have_shop []"
    by (simp add: dues_have_shop_def)
  have ok: "create_invoice ''2025-10-01'' ''Asha'' [line_of ''A'' 10 2]
          [coll_of ''Cash'' 30, coll_of ''Cash'' (- 10)] [] '''' shop_db =
        (Inr (True, ''Invoice #1 saved.'', 1),
         saved_db ''2025-10-01'' ''Asha'' [line_of ''A'' 10 2]
           [coll_of ''Cash'' 30, coll_of ''Cash'' (- 10)] [] '''' shop_db)"
    using create_invoice_ok [OF r l s, of "''2025-10-01''" "''Asha''" "''''"]
    by (simp add: shop_db_fields str_nat_1)
  show "fst (create_invoice ''2025-10-01'' ''Asha'' [line_of ''A'' 10 2]
          [coll_of ''Cash'' 30, coll_of ''Cash'' (- 10)] [] '''' shop_db) =
     Inr (True, ''Invoice #1 saved.'', 1)"
    unfolding ok fst_conv by (rule refl)
  show "collection_amount (last (rows (invoices (snd (create_invoice ''2025-10-01'' ''Asha''
       [line_of ''A'' 10 2] [coll_of ''Cash'' 30, coll_of ''Cash'' (- 10)] [] '''' shop_db))))) = 20"
    unfolding ok snd_conv rows_invoices_saved t
    by simp
  show "map ic_amount (rows (invoice_collections (snd (create_invoice ''2025-10-01'' ''Asha''
       [line_of ''A'' 10 2] [coll_of ''Cash'' 30, coll_of ''Cash'' (- 10)] [] '''' shop_db)))) = [30]"
    unfolding ok snd_conv rows_colls_saved
    by (simp add: shop_db_fields coll_of_def get_or_def mk_coll_row_def)
  show "(\<Sum>c\<leftarrow>filter (\<lambda>c. 0 < get_or 0 (c_amount c)) [coll_of ''Cash'' 30, coll_of ''Cash'' (- 10)].
      get_or 0 (c_amount c)) = 30"
    by (simp add: coll_of_def get_or_def)
qed

theorem totals_count_negative_amounts_witness:
  "list_all (\<lambda>c. 0 \<le> get_or 0 (c_amount c)) sample_colls \<and>
   list_all (\<lambda>u. 0 \<le> get_or 0 (d_amount u)) sample_dues \<and>
   fst (create_invoice ''2025-10-01'' ''Asha'' sample_lines sample_colls sample_dues '''' shop_db) =
     Inr (True, ''Invoice #1 saved.'', 1) \<and>
   coll_total sample_colls = 15 \<and> due_total sample_dues = 10 \<and>
   (\<Sum>c\<leftarrow>filter (\<lambda>c. 0 < get_or 0 (c_amount c)) sample_colls. get_or 0 (c_amount c)) = 15 \<and>
   (\<Sum>u\<leftarrow>filter (\<lambda>u. 0 < get_or 0 (d_amount u)) sample_dues. get_or 0 (d_amount u)) = 10 \<and>
   collection_amount (last (rows (invoices (snd (create_invoice ''2025-10-01'' ''Asha'' sample_lines
     sample_colls sample_dues '''' shop_db))))) = 15 \<and>
   due_amount (last (rows (invoices (snd (create_invoice ''2025-10-01'' ''Asha'' sample_lines
     sample_colls sample_dues '''' shop_db))))) = 10"
proof -
  have ok: "fst (create_invoice ''2025-10-01'' ''Asha'' sample_lines sample_colls sample_dues ''''
      shop_db) = Inr (True, ''Invoice #1 saved.'', 1)"
    by (simp add: sample_saved)
  have pc: "\<forall>c \<in> set sample_colls. 0 \<le> get_or 0 (c_amount c)"
    by (simp add: sample_colls_def coll_of_def get_or_def)
  have pu: "\<forall>u \<in> set sample_dues. 0 \<le> get_or 0 (d_amount u)"
    by (simp add: sample_dues_def due_of_def get_or_def)
  from totals_count_negative_amounts [of sample_colls sample_dues sample_lines "''2025-10-01''"
      "''Asha''" "''''" shop_db "''Invoice #1 saved.''" 1] ok pc pu
  show ?thesis
    by (simp add: sample_totals list_all_iff)
qed

section \<open>The child rows of a saved invoice\<close>

text \<open>
  C6, as stated, fails. A single line for item A with quantity zero is stored as an invoice
  line, although no submitted line has both an item and a non-zero quantity.
\<close>

theorem child_rows_counterexample:
  "fst (create_invoice ''2025-10-01'' ''Asha'' [line_of ''A'' 10 0] [] [] '''' shop_db) =
     Inr (True, ''Invoice #1 saved.'', 1) \<and>
   filter (\<lambda>l. truthy_str (l_item l) \<and> get_or 0 (l_qty l) \<noteq> 0) [line_of ''A'' 10 0] = [] \<and>
   rows (invoice_lines (snd (create_invoice ''2025-10-01'' ''Asha'' [line_of ''A'' 10 0] [] [] ''''
     shop_db))) =
     [\<lparr>il_id = 1, il_invoice_id = 1, line_no = 1, il_item = ''A'', il_unit_price = 10, il_qty = 0,
       il_units = ''UNITS'', il_highlight = 0, il_amount = 0\<rparr>]"
proof -
  have c: "coll_total [] = 0"
    by (simp add: coll_total_def py_sum_def)
  have r: "reconciles [line_of ''A'' 10 0] [] []"
    by (simp add: reconciles_def invoice_total_single c due_total_Nil)
  have l: "lines_reference_items [line_of ''A'' 10 0] (item_names shop_db)"
    by (simp add: shop_db_fields lines_reference_items_def line_of_def)
  have s: "dues_have_shop []"
    by (simp add: dues_have_shop_def)
  have ok: "create_invoice ''2025-10-01'' ''Asha'' [line_of ''A'' 10 0] [] [] '''' shop_db =
        (Inr (True, ''Invoice #1 saved.'', 1),
         saved_db ''2025-10-01'' ''Asha'' [line_of ''A'' 10 0] [] [] '''' shop_db)"
    using create_invoice_ok [OF r l s, of "''2025-10-01''" "''Asha''" "''''"]
    by (simp add: shop_db_fields str_nat_1)
  show ?thesis
    unfolding ok fst_conv snd_conv rows_lines_saved
    by (simp add: shop_db_fields line_of_def truthy_str_def get_or_def mk_line_row_def
        float_or0_def truthy_bool_def enumerate_eq_zip)
qed

text \<open>
  C6, amended. When \<^verbatim>\<open>create_invoice\<close> succeeds, the rows it adds are: one invoice line per
  submitted line with a non-empty item, whatever its quantity, in submission order and
  numbered with the line's position in the submitted list, counted from 1; one collection
  row per collection with a positive amount; one due row per due with a positive amount,
  whatever its shop.
\<close>

theorem child_rows_of_saved_invoice:
  assumes "create_invoice date p ls cs ds notes d = (Inr (True, msg, i), d')"
  shows "i = int (Suc (seq (invoices d))) \<and>
         rows (invoice_lines d') =
           rows (invoice_lines d) @
           map (\<lambda>(rid, k, l). mk_line_row (Suc (seq (invoices d))) k l rid)
             (enumerate (Suc (seq (invoice_lines d)))
                (filter (\<lambda>(k, l). truthy_str (l_item l)) (enumerate 1 ls))) \<and>
         rows (invoice_collections d') =
           rows (invoice_collections d) @
           map (\<lambda>(rid, c). mk_coll_row (Suc (seq (invoices d))) c rid)
             (enumerate (Suc (seq (invoice_collections d)))
                (filter (\<lambda>c. 0 < get_or 0 (c_amount c)) cs)) \<and>
         rows (invoice_dues d') =
           rows (invoice_dues d) @
           map (\<lambda>(rid, u). mk_due_row (Suc (seq (invoices d))) u rid)
             (enumerate (Suc (seq (invoice_dues d)))
                (filter (\<lambda>u. 0 < get_or 0 (d_amount u)) ds))"
  using create_invoice_saved [OF assms]
  by (simp add: rows_lines_saved rows_colls_saved rows_dues_saved)

theorem child_rows_of_saved_invoice_witness:
  "create_invoice ''2025-10-01'' ''Asha'' sample_lines sample_colls sample_dues '''' shop_db =
     (Inr (True, ''Invoice #1 saved.'', 1),
      saved_db ''2025-10-01'' ''Asha'' sample_lines sample_colls sample_dues '''' shop_db) \<and>
   rows (invoice_lines (saved_db ''2025-10-01'' ''Asha'' sample_lines sample_colls sample_dues ''''
       shop_db)) =
     map (\<lambda>(rid, k, l). mk_line_row 1 k l rid)
       (enumerate 1 (filter (\<lambda>(k, l). truthy_str (l_item l)) (enumerate 1 sample_lines))) \<and>
   map (\<lambda>r. (line_no r, il_item r, il_qty r))
     (rows (invoice_lines (saved_db ''2025-10-01'' ''Asha'' sample_lines sample_colls sample_dues ''''
       shop_db))) = [(1, ''A'', 2), (3, ''A'', 0)] \<and>
   map (\<lambda>r. (ic_method r, ic_amount r))
     (rows (invoice_collections (saved_db ''2025-10-01'' ''Asha'' sample_lines sample_colls
       sample_dues '''' shop_db))) = [(''Cash'', 15)] \<and>
   map (\<lambda>r. (idue_shop_no r, idue_amount r))
     (rows (invoice_dues (saved_db ''2025-10-01'' ''Asha'' sample_lines sample_colls sample_dues ''''
       shop_db))) = [('''', 10)]"
proof -
  have a: "rows (invoice_lines (saved_db ''2025-10-01'' ''Asha'' sample_lines sample_colls
       sample_dues '''' shop_db)) =
     map (\<lambda>(rid, k, l). mk_line_row 1 k l rid)
       (enumerate 1 (filter (\<lambda>(k, l). truthy_str (l_item l)) (enumerate 1 sample_lines)))"
    using child_rows_of_saved_invoice [OF sample_saved] by (simp add: shop_db_fields)
  have b: "map (\<lambda>r. (line_no r, il_item r, il_qty r))
     (rows (invoice_lines (saved_db ''2025-10-01'' ''Asha'' sample_lines sample_colls sample_dues ''''
       shop_db))) = [(1, ''A'', 2), (3, ''A'', 0)]"
    by (simp add: sample_line_rows)
  have c: "map (\<lambda>r. (ic_method r, ic_amount r))
     (rows (invoice_collections (saved_db ''2025-10-01'' ''Asha'' sample_lines sample_colls
       sample_dues '''' shop_db))) = [(''Cash'', 15)]"
    by (simp add: sample_coll_rows)
  have u: "map (\<lambda>r. (idue_shop_no r, idue_amount r))
     (rows (invoice_dues (saved_db ''2025-10-01'' ''Asha'' sample_lines sample_colls sample_dues ''''
       shop_db))) = [('''', 10)]"
    by (simp add: sample_due_rows)
  from sample_saved a b c u show ?thesis by blast
qed

section \<open>Collection methods outside the enumeration\<close>

text \<open>
  C7. A collection whose method is neither Cash nor UPI is not rejected: the call behaves
  exactly as the call with every method replaced by its coerced value, the coerced value
  of such a method is Cash, and when the call succeeds and the amount is positive the
  entry is stored as a collection row of the new invoice with method Cash.
\<close>

theorem method_coerced_to_cash:
  assumes "c \<in> set cs" and "c_method c \<notin> {Some ''Cash'', Some ''UPI''}"
  shows "create_invoice date p ls cs ds notes d =
           create_invoice date p ls (map (\<lambda>c. c\<lparr>c_method := Some (coerce_method (c_method c))\<rparr>) cs)
             ds notes d \<and>
         coerce_method (c_method c) = ''Cash'' \<and>
         (create_invoice date p ls cs ds notes d = (Inr (True, msg, i), d') \<longrightarrow>
          0 < get_or 0 (c_amount c) \<longrightarrow>
            (\<exists>r \<in> set (drop (length (rows (invoice_collections d))) (rows (invoice_collections d'))).
               ic_invoice_id r = nat i \<and> ic_method r = ''Cash'' \<and> ic_amount r = the (c_amount c)))"
proof (intro conjI impI)
  show "create_invoice date p ls cs ds notes d =
           create_invoice date p ls (map (\<lambda>c. c\<lparr>c_method := Some (coerce_method (c_method c))\<rparr>) cs)
             ds notes d"
    using create_invoice_coerce [of date p ls cs ds "notes" d]
    by (simp add: coerce_coll_def [abs_def])
  show cash: "coerce_method (c_method c) = ''Cash''"
    using assms(2) by (simp add: coerce_method_def)
  assume saved: "create_invoice date p ls cs ds notes d = (Inr (True, msg, i), d')"
    and pos: "0 < get_or 0 (c_amount c)"
  let ?iid = "Suc (seq (invoices d))"
  let ?kept = "filter (\<lambda>c. 0 < get_or 0 (c_amount c)) cs"
  from create_invoice_saved [OF saved] have i: "nat i = ?iid"
    and d': "d' = saved_db date p ls cs ds notes d" by simp_all
  have new: "drop (length (rows (invoice_collections d))) (rows (invoice_collections d')) =
      map (\<lambda>(rid, c). mk_coll_row ?iid c rid) (enumerate (Suc (seq (invoice_collections d))) ?kept)"
    by (simp add: d' rows_colls_saved)
  from assms(1) pos have "c \<in> set ?kept" by simp
  then obtain k where k: "k < length ?kept" "?kept ! k = c"
    by (metis in_set_conv_nth)
  then have "(Suc (seq (invoice_collections d)) + k, c) \<in>
      set (enumerate (Suc (seq (invoice_collections d))) ?kept)"
    by (auto simp: in_set_enumerate_eq)
  then have "mk_coll_row ?iid c (Suc (seq (invoice_collections d)) + k) \<in>
      set (drop (length (rows (invoice_collections d))) (rows (invoice_collections d')))"
    unfolding new by force
  moreover have "ic_invoice_id (mk_coll_row ?iid c (Suc (seq (invoice_collections d)) + k)) = nat i"
    "ic_method (mk_coll_row ?iid c (Suc (seq (invoice_collections d)) + k)) = ''Cash''"
    "ic_amount (mk_coll_row ?iid c (Suc (seq (invoice_collections d)) + k)) = the (c_amount c)"
    by (simp_all add: mk_coll_row_def cash i)
  ultimately show "\<exists>r \<in> set (drop (length (rows (invoice_collections d))) (rows (invoice_collections d'))).
               ic_invoice_id r = nat i \<and> ic_method r = ''Cash'' \<and> ic_amount r = the (c_amount c)"
    by blast
qed

theorem method_coerced_to_cash_witness:
  "coll_of ''Card'' 15 \<in> set sample_colls \<and>
   c_method (coll_of ''Card'' 15) \<notin> {Some ''Cash'', Some ''UPI''} \<and>
   0 < get_or 0 (c_amount (coll_of ''Card'' 15)) \<and>
   create_invoice ''2025-10-01'' ''Asha'' sample_lines sample_colls sample_dues '''' shop_db =
     (Inr (True, ''Invoice #1 saved.'', 1),
      saved_db ''2025-10-01'' ''Asha'' sample_lines sample_colls sample_dues '''' shop_db) \<and>
   (\<exists>r \<in> set (rows (invoice_collections (saved_db ''2025-10-01'' ''Asha'' sample_lines sample_colls
        sample_dues '''' shop_db))).
      ic_invoice_id r = 1 \<and> ic_method r = ''Cash'' \<and> ic_amount r = 15)"
proof -
  have m: "coll_of ''Card'' 15 \<in> set sample_colls"
    by (simp add: sample_colls_def)
  have n: "c_method (coll_of ''Card'' 15) \<notin> {Some ''Cash'', Some ''UPI''}"
    by (simp add: coll_of_def)
  have a: "0 < get_or 0 (c_amount (coll_of ''Card'' 15))"
    by (simp add: coll_of_def get_or_def)
  from method_coerced_to_cash [OF m n, of "''2025-10-01''" "''Asha''" sample_lines sample_dues "''''"
      shop_db "''Invoice #1 saved.''" 1
      "saved_db ''2025-10-01'' ''Asha'' sample_lines sample_colls sample_dues '''' shop_db"]
    sample_saved a
  have "\<exists>r \<in> set (drop (length (rows (invoice_collections shop_db)))
         (rows (invoice_collections (saved_db ''2025-10-01'' ''Asha'' sample_lines sample_colls
            sample_dues '''' shop_db)))).
      ic_invoice_id r = nat 1 \<and> ic_method r = ''Cash'' \<and>
      ic_amount r = the (c_amount (coll_of ''Card'' 15))"
    by blast
  then have "\<exists>r \<in> set (rows (invoice_collections (saved_db ''2025-10-01'' ''Asha'' sample_lines
        sample_colls sample_dues '''' shop_db))).
      ic_invoice_id r = 1 \<and> ic_method r = ''Cash'' \<and> ic_amount r = 15"
    by (simp add: shop_db_fields coll_of_def)
  with m n a sample_saved show ?thesis by blast
qed

section \<open>The daily aggregate\<close>

text \<open>
  C8. When \<^verbatim>\<open>create_invoice\<close> succeeds, the legacy collections table gains one row exactly when
  the collection total is not zero; the row carries the date, the collection total as its
  amount, and a note made of the new invoice id and the person name.
\<close>

theorem daily_aggregate_row:
  assumes "create_invoice date p ls cs ds notes d = (Inr (True, msg, i), d')"
  shows "rows (collections d') =
           rows (collections d) @
           (if coll_total cs \<noteq> 0
            then [\<lparr>col_id = Suc (seq (collections d)), col_date = date, col_amount = coll_total cs,
                    col_note = ''Invoice #'' @ str_nat (nat i) @ '' - '' @ p\<rparr>]
            else []) \<and>
         i = int (Suc (seq (invoices d))) \<and>
         collection_amount (last (rows (invoices d'))) = coll_total cs"
proof -
  from create_invoice_saved [OF assms] have i: "i = int (Suc (seq (invoices d)))"
    and d': "d' = saved_db date p ls cs ds notes d" by simp_all
  from i have n: "nat i = Suc (seq (invoices d))" by linarith
  show ?thesis
    unfolding n d' by (simp add: i rows_aggregate_saved rows_invoices_saved)
qed

theorem daily_aggregate_row_witness:
  "create_invoice ''2025-10-01'' ''Asha'' sample_lines sample_colls sample_dues '''' shop_db =
     (Inr (True, ''Invoice #1 saved.'', 1),
      saved_db ''2025-10-01'' ''Asha'' sample_lines sample_colls sample_dues '''' shop_db) \<and>
   coll_total sample_colls \<noteq> 0 \<and>
   rows (collections (saved_db ''2025-10-01'' ''Asha'' sample_lines sample_colls sample_dues ''''
       shop_db)) =
     [\<lparr>col_id = 1, col_date = ''2025-10-01'', col_amount = 15, col_note = ''Invoice #1 - Asha''\<rparr>]"
  using daily_aggregate_row [OF sample_saved]
  by (simp add: sample_saved sample_totals shop_db_fields str_nat_1)

section \<open>Derived columns of a movement\<close>

text \<open>
  C9. \<^verbatim>\<open>add_inventory_movement\<close> stores one row for every submitted row with an item, or, when
  one of these items is not in the items table, raises and stores nothing. A stored
  quantity is the submitted one, with an absent key or a zero as 0 and a NaN as \<^verbatim>\<open>NULL\<close>.
  In every stored row stock remaining equals closing balance; when the four quantities are
  numbers, closing balance is opening balance plus stock in minus stock out plus stock
  returning today, added up from the left in binary64 (\<^verbatim>\<open>NULL\<close> when that sum is NaN), and it
  is \<^verbatim>\<open>NULL\<close> when a quantity is \<^verbatim>\<open>NULL\<close>. For opening 50, in 10, out 5 and returning 2 both
  derived values are 57. For a NaN opening balance with in 10, out 5 and returning 2 the row
  is stored with \<^verbatim>\<open>NULL\<close> as its opening balance, its closing balance and its stock remaining:
  there the stored row has no closing balance equal to the sum of its quantities.
\<close>

theorem movement_rows_stored:
  "fst (add_inventory_movement date rs d) =
     (if \<forall>r \<in> set rs. truthy_str (m_item r) \<longrightarrow> the (m_item r) \<in> item_names d
      then Inr () else Inl fk_error) \<and>
   rows (inventory_movements (snd (add_inventory_movement date rs d))) =
     rows (inventory_movements d) @
     (if fst (add_inventory_movement date rs d) = Inr ()
      then map (\<lambda>(rid, r).
                  \<lparr>mv_id = rid, mv_date = date, mv_item = the (m_item r),
                   opening_balance = sql_real (double_or0 (m_opening_balance r)),
                   stock_in = sql_real (double_or0 (m_stock_in r)),
                   stock_out = sql_real (double_or0 (m_stock_out r)),
                   stock_returning_today = sql_real (double_or0 (m_stock_returning_today r)),
                   closing_balance =
                     sql_add (sql_sub (sql_add (sql_real (double_or0 (m_opening_balance r)))
                                               (sql_real (double_or0 (m_stock_in r))))
                                      (sql_real (double_or0 (m_stock_out r))))
                             (sql_real (double_or0 (m_stock_returning_today r))),
                   stock_remaining =
                     sql_add (sql_sub (sql_add (sql_real (double_or0 (m_opening_balance r)))
                                               (sql_real (double_or0 (m_stock_in r))))
                                      (sql_real (double_or0 (m_stock_out r))))
                             (sql_real (double_or0 (m_stock_returning_today r)))\<rparr>)
             (enumerate (Suc (seq (inventory_movements d))) (filter (\<lambda>r. truthy_str (m_item r)) rs))
      else []) \<and>
   (\<forall>r \<in> set (drop (length (rows (inventory_movements d)))
                  (rows (inventory_movements (snd (add_inventory_movement date rs d))))).
      stock_remaining r = closing_balance r \<and>
      (case opening_balance r of
         None \<Rightarrow> closing_balance r = None
       | Some a \<Rightarrow>
           (case stock_in r of
              None \<Rightarrow> closing_balance r = None
            | Some b \<Rightarrow>
                (case stock_out r of
                   None \<Rightarrow> closing_balance r = None
                 | Some c \<Rightarrow>
                     (case stock_returning_today r of
                        None \<Rightarrow> closing_balance r = None
                      | Some e \<Rightarrow> closing_balance r = sql_real (fadd (fsub (fadd a b) c) e)))))) \<and>
   (it \<in> item_names d \<and> it \<noteq> [] \<longrightarrow>
      map (\<lambda>r. (opening_balance r, stock_in r, stock_out r, stock_returning_today r,
                closing_balance r, stock_remaining r))
        (drop (length (rows (inventory_movements d)))
           (rows (inventory_movements
              (snd (add_inventory_movement date
                      [movement_of it (Finite 50) (Finite 10) (Finite 5) (Finite 2)] d))))) =
        [(Some (Finite 50), Some (Finite 10), Some (Finite 5), Some (Finite 2),
          Some (Finite 57), Some (Finite 57))] \<and>
      map (\<lambda>r. (opening_balance r, stock_in r, stock_out r, stock_returning_today r,
                closing_balance r, stock_remaining r))
        (drop (length (rows (inventory_movements d)))
           (rows (inventory_movements
              (snd (add_inventory_movement date
                      [movement_of it NaN (Finite 10) (Finite 5) (Finite 2)] d))))) =
        [(None, Some (Finite 10), Some (Finite 5), Some (Finite 2), None, None)])"
proof (intro conjI impI)
  show "fst (add_inventory_movement date rs d) =
     (if \<forall>r \<in> set rs. truthy_str (m_item r) \<longrightarrow> the (m_item r) \<in> item_names d
      then Inr () else Inl fk_error)"
    by (simp add: add_inventory_movement_ok add_inventory_movement_fails)
  show "rows (inventory_movements (snd (add_inventory_movement date rs d))) =
     rows (inventory_movements d) @
     (if fst (add_inventory_movement date rs d) = Inr ()
      then map (\<lambda>(rid, r).
                  \<lparr>mv_id = rid, mv_date = date, mv_item = the (m_item r),
                   opening_balance = sql_real (double_or0 (m_opening_balance r)),
                   stock_in = sql_real (double_or0 (m_stock_in r)),
                   stock_out = sql_real (double_or0 (m_stock_out r)),
                   stock_returning_today = sql_real (double_or0 (m_stock_returning_today r)),
                   closing_balance =
                     sql_add (sql_sub (sql_add (sql_real (double_or0 (m_opening_balance r)))
                                               (sql_real (double_or0 (m_stock_in r))))
                                      (sql_real (double_or0 (m_stock_out r))))
                             (sql_real (double_or0 (m_stock_returning_today r))),
                   stock_remaining =
                     sql_add (sql_sub (sql_add (sql_real (double_or0 (m_opening_balance r)))
                                               (sql_real (double_or0 (m_stock_in r))))
                                      (sql_real (double_or0 (m_stock_out r))))
                             (sql_real (double_or0 (m_stock_returning_today r)))\<rparr>)
             (enumerate (Suc (seq (inventory_movements d))) (filter (\<lambda>r. truthy_str (m_item r)) rs))
      else [])"
    unfolding add_inventory_movement_rows [of date rs d]
    by (simp add: mk_movement_row_fields case_prod_unfold)
  show "\<forall>r \<in> set (drop (length (rows (inventory_movements d)))
                  (rows (inventory_movements (snd (add_inventory_movement date rs d))))).
      stock_remaining r = closing_balance r \<and>
      (case opening_balance r of
         None \<Rightarrow> closing_balance r = None
       | Some a \<Rightarrow>
           (case stock_in r of
              None \<Rightarrow> closing_balance r = None
            | Some b \<Rightarrow>
                (case stock_out r of
                   None \<Rightarrow> closing_balance r = None
                 | Some c \<Rightarrow>
                     (case stock_returning_today r of
                        None \<Rightarrow> closing_balance r = None
                      | Some e \<Rightarrow> closing_balance r = sql_real (fadd (fsub (fadd a b) c) e)))))"
  proof
    fix r
    assume "r \<in> set (drop (length (rows (inventory_movements d)))
                  (rows (inventory_movements (snd (add_inventory_movement date rs d)))))"
    then obtain m rid where r: "r = mk_movement_row date m rid"
      unfolding add_inventory_movement_rows [of date rs d]
      by (auto split: if_splits)
    have rem: "stock_remaining r = closing_balance r"
      and cb: "closing_balance r =
        sql_add (sql_sub (sql_add (opening_balance r) (stock_in r)) (stock_out r))
          (stock_returning_today r)"
      using mk_movement_row_closing [of date m rid] by (simp_all add: r)
    show "stock_remaining r = closing_balance r \<and>
      (case opening_balance r of
         None \<Rightarrow> closing_balance r = None
       | Some a \<Rightarrow>
           (case stock_in r of
              None \<Rightarrow> closing_balance r = None
            | Some b \<Rightarrow>
                (case stock_out r of
                   None \<Rightarrow> closing_balance r = None
                 | Some c \<Rightarrow>
                     (case stock_returning_today r of
                        None \<Rightarrow> closing_balance r = None
                      | Some e \<Rightarrow> closing_balance r = sql_real (fadd (fsub (fadd a b) c) e)))))"
      using rem cb
      by (simp add: sql_sum_of_values sql_sum_of_null split: option.splits)
  qed
next
  assume "it \<in> item_names d \<and> it \<noteq> []"
  then have it: "it \<in> item_names d" "it \<noteq> []" by simp_all
  show "map (\<lambda>r. (opening_balance r, stock_in r, stock_out r, stock_returning_today r,
                closing_balance r, stock_remaining r))
        (drop (length (rows (inventory_movements d)))
           (rows (inventory_movements
              (snd (add_inventory_movement date
                      [movement_of it (Finite 50) (Finite 10) (Finite 5) (Finite 2)] d))))) =
        [(Some (Finite 50), Some (Finite 10), Some (Finite 5), Some (Finite 2),
          Some (Finite 57), Some (Finite 57))]"
    unfolding add_one_movement [OF it] snd_conv
    by (simp add: insert_row_def mk_movement_row_fields movement_of_def double_or0_def
        truthy_float_def sql_real_def sample_closing_balance)
  show "map (\<lambda>r. (opening_balance r, stock_in r, stock_out r, stock_returning_today r,
                closing_balance r, stock_remaining r))
        (drop (length (rows (inventory_movements d)))
           (rows (inventory_movements
              (snd (add_inventory_movement date
                      [movement_of it NaN (Finite 10) (Finite 5) (Finite 2)] d))))) =
        [(None, Some (Finite 10), Some (Finite 5), Some (Finite 2), None, None)]"
    unfolding add_one_movement [OF it] snd_conv
    by (simp add: insert_row_def mk_movement_row_fields movement_of_def double_or0_def
        truthy_float_def sql_real_def sql_sum_of_null)
qed

theorem movement_rows_stored_witness:
  "''A'' \<in> item_names shop_db \<and> ''A'' \<noteq> [] \<and>
   list_all (\<lambda>r. truthy_str (m_item r) \<and> the (m_item r) \<in> item_names shop_db) sample_movements \<and>
   fst (add_inventory_movement ''2025-10-01'' sample_movements shop_db) = Inr () \<and>
   rows (inventory_movements (snd (add_inventory_movement ''2025-10-01'' sample_movements shop_db))) =
     [\<lparr>mv_id = 1, mv_date = ''2025-10-01'', mv_item = ''A'',
       opening_balance = Some (Finite 50), stock_in = Some (Finite 10),
       stock_out = Some (Finite 5), stock_returning_today = Some (Finite 2),
       closing_balance = Some (Finite 57), stock_remaining = Some (Finite 57)\<rparr>,
      \<lparr>mv_id = 2, mv_date = ''2025-10-01'', mv_item = ''A'',
       opening_balance = None, stock_in = Some (Finite 10),
       stock_out = Some (Finite 5), stock_returning_today = Some (Finite 2),
       closing_balance = None, stock_remaining = None\<rparr>] \<and>
   list_all (\<lambda>r. stock_remaining r = closing_balance r)
     (rows (inventory_movements (snd (add_inventory_movement ''2025-10-01'' sample_movements
        shop_db)))) \<and>
   map (\<lambda>r. (opening_balance r, stock_in r, stock_out r, stock_returning_today r,
             closing_balance r, stock_remaining r))
     (rows (inventory_movements
        (snd (add_inventory_movement ''2025-10-01''
                [movement_of ''A'' (Finite 50) (Finite 10) (Finite 5) (Finite 2)] shop_db)))) =
     [(Some (Finite 50), Some (Finite 10), Some (Finite 5), Some (Finite 2),
       Some (Finite 57), Some (Finite 57))] \<and>
   map (\<lambda>r. (opening_balance r, stock_in r, stock_out r, stock_returning_today r,
             closing_balance r, stock_remaining r))
     (rows (inventory_movements
        (snd (add_inventory_movement ''2025-10-01''
                [movement_of ''A'' NaN (Finite 10) (Finite 5) (Finite 2)] shop_db)))) =
     [(None, Some (Finite 10), Some (Finite 5), Some (Finite 2), None, None)]"
proof -
  have it: "''A'' \<in> item_names shop_db" "''A'' \<noteq> []"
    by (simp_all add: shop_db_fields)
  have items: "\<forall>r \<in> set sample_movements. truthy_str (m_item r) \<longrightarrow> the (m_item r) \<in> item_names shop_db"
    and all: "list_all (\<lambda>r. truthy_str (m_item r) \<and> the (m_item r) \<in> item_names shop_db)
      sample_movements"
    by (simp_all add: sample_movements_def movement_of_def truthy_str_def shop_db_fields)
  have kept: "filter (\<lambda>r. truthy_str (m_item r)) sample_movements = sample_movements"
    by (simp add: sample_movements_def movement_of_def truthy_str_def)
  note inst = movement_rows_stored [of "''2025-10-01''" sample_movements shop_db "''A''"]
  from inst items have ok: "fst (add_inventory_movement ''2025-10-01'' sample_movements shop_db) = Inr ()"
    by simp
  from inst have "rows (inventory_movements (snd (add_inventory_movement ''2025-10-01''
        sample_movements shop_db))) =
     [\<lparr>mv_id = 1, mv_date = ''2025-10-01'', mv_item = ''A'',
       opening_balance = Some (Finite 50), stock_in = Some (Finite 10),
       stock_out = Some (Finite 5), stock_returning_today = Some (Finite 2),
       closing_balance = Some (Finite 57), stock_remaining = Some (Finite 57)\<rparr>,
      \<lparr>mv_id = 2, mv_date = ''2025-10-01'', mv_item = ''A'',
       opening_balance = None, stock_in = Some (Finite 10),
       stock_out = Some (Finite 5), stock_returning_today = Some (Finite 2),
       closing_balance = None, stock_remaining = None\<rparr>]"
    unfolding ok kept
    by (simp add: shop_db_fields sample_movements_def movement_of_def double_or0_def
        truthy_float_def sql_real_def sample_closing_balance sql_sum_of_null)
  moreover from this
  have "list_all (\<lambda>r. stock_remaining r = closing_balance r)
     (rows (inventory_movements (snd (add_inventory_movement ''2025-10-01'' sample_movements
        shop_db))))"
    by simp
  moreover from inst it
  have "map (\<lambda>r. (opening_balance r, stock_in r, stock_out r, stock_returning_today r,
             closing_balance r, stock_remaining r))
     (rows (inventory_movements
        (snd (add_inventory_movement ''2025-10-01''
                [movement_of ''A'' (Finite 50) (Finite 10) (Finite 5) (Finite 2)] shop_db)))) =
     [(Some (Finite 50), Some (Finite 10), Some (Finite 5), Some (Finite 2),
       Some (Finite 57), Some (Finite 57))] \<and>
   map (\<lambda>r. (opening_balance r, stock_in r, stock_out r, stock_returning_today r,
             closing_balance r, stock_remaining r))
     (rows (inventory_movements
        (snd (add_inventory_movement ''2025-10-01''
                [movement_of ''A'' NaN (Finite 10) (Finite 5) (Finite 2)] shop_db)))) =
     [(None, Some (Finite 10), Some (Finite 5), Some (Finite 2), None, None)]"
    by (simp add: shop_db_fields)
  ultimately show ?thesis using it all ok by blast
qed

section \<open>Saving without reconciliation\<close>

text \<open>
  C10, as stated, fails. \<^verbatim>\<open>create_invoice\<close> of \<^verbatim>\<open>inventory_billing_app.py\<close> does reject input:
  a line for an item that the items table does not hold violates the foreign key of the
  invoice lines, and a line whose quantity is NaN gives a NaN total, which the invoices
  table does not take for its total amount; in both cases the call raises and no invoice
  is stored. And an invoice that is stored need not have a total amount equal to its
  collection amount plus its due amount: for one line of 2 units at 0.43 and a collection
  of 0.34 the stored due is the binary64 difference of total and collection, and adding
  the collection to it gives the next binary64 value above the total.
\<close>

theorem app_create_invoice_counterexample:
  "app_create_invoice ''2025-10-01'' ''Asha'' [app_line_of ''A'' (Finite 10) (Finite 2)] (Finite 0) ''''
     app_empty_db =
     (Inl (IntegrityError ''FOREIGN KEY constraint failed''), app_empty_db) \<and>
   app_create_invoice ''2025-10-01'' ''Asha'' [app_line_of ''A'' (Finite 10) NaN] (Finite 0) ''''
     app_shop_db =
     (Inl (IntegrityError ''NOT NULL constraint failed: invoices.total_amount''), app_shop_db) \<and>
   fst (app_create_invoice ''2025-10-01'' ''Asha''
          [app_line_of ''A'' (round_double (43 / 100)) (Finite 2)] (round_double (34 / 100)) ''''
          app_shop_db) = Inr 1 \<and>
   map (\<lambda>r. (ai_total_amount r, ai_collection_amount r, ai_due_amount r,
             fadd (ai_collection_amount r) (ai_due_amount r)))
     (rows (app_invoices (snd (app_create_invoice ''2025-10-01'' ''Asha''
        [app_line_of ''A'' (round_double (43 / 100)) (Finite 2)] (round_double (34 / 100)) ''''
        app_shop_db)))) =
     [(Finite (7746191359077253 / 2 ^ 53), Finite (6124895493223875 / 2 ^ 54),
       Finite (4683743612465316 / 2 ^ 53), Finite (7746191359077254 / 2 ^ 53))] \<and>
   map (\<lambda>r. fadd (ai_collection_amount r) (ai_due_amount r) = ai_total_amount r)
     (rows (app_invoices (snd (app_create_invoice ''2025-10-01'' ''Asha''
        [app_line_of ''A'' (round_double (43 / 100)) (Finite 2)] (round_double (34 / 100)) ''''
        app_shop_db)))) = [False]"
proof -
  have fk: "app_create_invoice ''2025-10-01'' ''Asha'' [app_line_of ''A'' (Finite 10) (Finite 2)]
      (Finite 0) '''' app_empty_db =
     (Inl (IntegrityError ''FOREIGN KEY constraint failed''), app_empty_db)"
    by (simp add: app_create_invoice_def Let_def app_with_conn_def app_insert_invoice_def
        app_insert_invoice_line_def app_total_def float_sum_def app_line_of_def get_or_def
        round_double_20 round_double_0 fsub_def sql_real_def double_or0_def truthy_float_def
        truthy_str_def app_empty_db_def empty_tbl_def insert_row_def fk_error_def)
  have nn: "app_create_invoice ''2025-10-01'' ''Asha'' [app_line_of ''A'' (Finite 10) NaN] (Finite 0)
      '''' app_shop_db =
     (Inl (IntegrityError ''NOT NULL constraint failed: invoices.total_amount''), app_shop_db)"
    by (simp add: app_create_invoice_def Let_def app_with_conn_def app_insert_invoice_def
        app_total_def float_sum_def app_line_of_def get_or_def sql_real_def not_null_error_def)
  have st: "app_storable [app_line_of ''A'' (round_double (43 / 100)) (Finite 2)]
      (round_double (34 / 100)) app_shop_db"
    unfolding app_storable_def round_double_34 round_double_43 sample_total sample_due
    by (simp add: app_line_storable_def app_line_of_def double_or0_def truthy_float_def
        truthy_str_def app_shop_db_def app_empty_db_def)
  note ok = app_create_invoice_ok [OF st, of "''2025-10-01''" "''Asha''" "''''"]
  have f: "seq (app_invoices app_shop_db) = 0" "rows (app_invoices app_shop_db) = []"
    by (simp_all add: app_shop_db_def app_empty_db_def empty_tbl_def)
  from ok have id: "fst (app_create_invoice ''2025-10-01'' ''Asha''
          [app_line_of ''A'' (round_double (43 / 100)) (Finite 2)] (round_double (34 / 100)) ''''
          app_shop_db) = Inr 1"
    by (simp add: f)
  from ok have stored: "rows (app_invoices (snd (app_create_invoice ''2025-10-01'' ''Asha''
        [app_line_of ''A'' (round_double (43 / 100)) (Finite 2)] (round_double (34 / 100)) ''''
        app_shop_db))) =
     [mk_app_invoice_row ''2025-10-01'' (strip ''Asha'')
        (Finite (7746191359077253 / 9007199254740992))
        (Finite (6124895493223875 / 18014398509481984))
        (Finite (1170935903116329 / 2251799813685248)) '''' 1]"
    unfolding round_double_34 round_double_43 sample_total sample_due
    by (simp add: f insert_row_def)
  have row: "map (\<lambda>r. (ai_total_amount r, ai_collection_amount r, ai_due_amount r,
             fadd (ai_collection_amount r) (ai_due_amount r)))
     (rows (app_invoices (snd (app_create_invoice ''2025-10-01'' ''Asha''
        [app_line_of ''A'' (round_double (43 / 100)) (Finite 2)] (round_double (34 / 100)) ''''
        app_shop_db)))) =
     [(Finite (7746191359077253 / 2 ^ 53), Finite (6124895493223875 / 2 ^ 54),
       Finite (4683743612465316 / 2 ^ 53), Finite (7746191359077254 / 2 ^ 53))]"
    unfolding stored list.map mk_app_invoice_row_def app_invoice_row.simps sample_sum
    by simp
  have ne: "map (\<lambda>r. fadd (ai_collection_amount r) (ai_due_amount r) = ai_total_amount r)
     (rows (app_invoices (snd (app_create_invoice ''2025-10-01'' ''Asha''
        [app_line_of ''A'' (round_double (43 / 100)) (Finite 2)] (round_double (34 / 100)) ''''
        app_shop_db)))) = [False]"
    unfolding stored list.map mk_app_invoice_row_def app_invoice_row.simps sample_sum
    by simp
  from fk nn id row ne show ?thesis by blast
qed

text \<open>
  C10, amended. \<^verbatim>\<open>create_invoice\<close> of \<^verbatim>\<open>inventory_billing_app.py\<close> makes no reconciliation
  check, and rejects a call only through the constraints of the schema. When the total,
  the collection amount and the due are not NaN, and every line with an item has a unit
  price and a quantity that are not NaN and names an item of the items table, the call
  returns the new invoice id and stores one invoice row with the total, the collection
  amount as given, and the due, which is the binary64 difference of the total amount and
  the collection amount. In every other case the call raises an integrity error and the
  database is left as it was; a line with an item that the items table does not hold is
  such a case.
\<close>

theorem app_create_invoice_outcome:
  "(app_storable ls coll d \<longrightarrow>
      fst (app_create_invoice date p ls coll notes d) = Inr (Suc (seq (app_invoices d))) \<and>
      rows (app_invoices (snd (app_create_invoice date p ls coll notes d))) =
        rows (app_invoices d) @
        [\<lparr>ai_id = Suc (seq (app_invoices d)), ai_date = date, ai_person_name = strip p,
          ai_total_amount = app_total ls, ai_collection_amount = coll,
          ai_due_amount = fsub (app_total ls) coll, ai_notes = notes\<rparr>] \<and>
      ai_due_amount (last (rows (app_invoices (snd (app_create_invoice date p ls coll notes d))))) =
        fsub (ai_total_amount (last (rows (app_invoices (snd (app_create_invoice date p ls coll
                 notes d))))))
             (ai_collection_amount (last (rows (app_invoices (snd (app_create_invoice date p ls
                 coll notes d))))))) \<and>
   (\<not> app_storable ls coll d \<longrightarrow>
      (\<exists>m. app_create_invoice date p ls coll notes d = (Inl (IntegrityError m), d))) \<and>
   ((\<exists>l \<in> set ls. truthy_str (ln_item l) \<and> the (ln_item l) \<notin> fst ` set (app_items d)) \<longrightarrow>
      (\<exists>m. app_create_invoice date p ls coll notes d = (Inl (IntegrityError m), d)))"
proof (intro conjI impI)
  assume st: "app_storable ls coll d"
  note ok = app_create_invoice_ok [OF st, of date p "notes"]
  from ok show "fst (app_create_invoice date p ls coll notes d) = Inr (Suc (seq (app_invoices d)))"
    by simp
  from ok show rows_eq: "rows (app_invoices (snd (app_create_invoice date p ls coll notes d))) =
        rows (app_invoices d) @
        [\<lparr>ai_id = Suc (seq (app_invoices d)), ai_date = date, ai_person_name = strip p,
          ai_total_amount = app_total ls, ai_collection_amount = coll,
          ai_due_amount = fsub (app_total ls) coll, ai_notes = notes\<rparr>]"
    by (simp add: insert_row_def mk_app_invoice_row_def)
  show "ai_due_amount (last (rows (app_invoices (snd (app_create_invoice date p ls coll notes d))))) =
        fsub (ai_total_amount (last (rows (app_invoices (snd (app_create_invoice date p ls coll
                 notes d))))))
             (ai_collection_amount (last (rows (app_invoices (snd (app_create_invoice date p ls
                 coll notes d))))))"
    unfolding rows_eq by simp
next
  assume "\<not> app_storable ls coll d"
  then show "\<exists>m. app_create_invoice date p ls coll notes d = (Inl (IntegrityError m), d)"
    by (rule app_create_invoice_fails)
next
  assume "\<exists>l \<in> set ls. truthy_str (ln_item l) \<and> the (ln_item l) \<notin> fst ` set (app_items d)"
  then have "\<not> list_all (app_line_storable d) ls"
    by (auto simp: list_all_iff app_line_storable_def)
  then have "\<not> app_storable ls coll d"
    by (simp add: app_storable_def)
  then show "\<exists>m. app_create_invoice date p ls coll notes d = (Inl (IntegrityError m), d)"
    by (rule app_create_invoice_fails)
qed

theorem app_create_invoice_outcome_witness:
  "app_storable [app_line_of ''A'' (Finite 10) (Finite 2)] (Finite 5) app_shop_db \<and>
   fst (app_create_invoice ''2025-10-01'' ''Asha'' [app_line_of ''A'' (Finite 10) (Finite 2)]
          (Finite 5) '''' app_shop_db) = Inr 1 \<and>
   rows (app_invoices (snd (app_create_invoice ''2025-10-01'' ''Asha''
      [app_line_of ''A'' (Finite 10) (Finite 2)] (Finite 5) '''' app_shop_db))) =
     [\<lparr>ai_id = 1, ai_date = ''2025-10-01'', ai_person_name = ''Asha'', ai_total_amount = Finite 20,
       ai_collection_amount = Finite 5, ai_due_amount = Finite 15, ai_notes = ''''\<rparr>] \<and>
   \<not> app_storable [app_line_of ''B'' (Finite 10) (Finite 2)] (Finite 5) app_shop_db \<and>
   truthy_str (ln_item (app_line_of ''B'' (Finite 10) (Finite 2))) \<and>
   the (ln_item (app_line_of ''B'' (Finite 10) (Finite 2))) \<notin> fst ` set (app_items app_shop_db) \<and>
   app_create_invoice ''2025-10-01'' ''Asha'' [app_line_of ''B'' (Finite 10) (Finite 2)] (Finite 5)
      '''' app_shop_db =
     (Inl (IntegrityError ''FOREIGN KEY constraint failed''), app_shop_db)"
proof -
  have tot: "app_total [app_line_of it (Finite 10) (Finite 2)] = Finite 20" for it
    by (simp add: app_total_def float_sum_def app_line_of_def get_or_def round_double_20)
  have du: "fsub (Finite 20) (Finite 5) = Finite 15"
    by (simp add: fsub_def round_double_15)
  have st: "app_storable [app_line_of ''A'' (Finite 10) (Finite 2)] (Finite 5) app_shop_db"
    unfolding app_storable_def tot du
    by (simp add: app_line_storable_def app_line_of_def double_or0_def truthy_float_def
        truthy_str_def app_shop_db_def app_empty_db_def)
  have item: "truthy_str (ln_item (app_line_of ''B'' (Finite 10) (Finite 2)))"
    "the (ln_item (app_line_of ''B'' (Finite 10) (Finite 2))) \<notin> fst ` set (app_items app_shop_db)"
    by (simp_all add: app_line_of_def truthy_str_def app_shop_db_def app_empty_db_def)
  then have nst: "\<not> app_storable [app_line_of ''B'' (Finite 10) (Finite 2)] (Finite 5) app_shop_db"
    by (simp add: app_storable_def app_line_storable_def)
  have f: "seq (app_invoices app_shop_db) = 0" "rows (app_invoices app_shop_db) = []"
    by (simp_all add: app_shop_db_def app_empty_db_def empty_tbl_def)
  have sp: "strip ''Asha'' = ''Asha''"
    by (simp add: strip_def is_space_def)
  note inst = app_create_invoice_outcome [of "[app_line_of ''A'' (Finite 10) (Finite 2)]" "Finite 5"
      app_shop_db "''2025-10-01''" "''Asha''" "''''"]
  from inst st have ok: "fst (app_create_invoice ''2025-10-01'' ''Asha''
      [app_line_of ''A'' (Finite 10) (Finite 2)] (Finite 5) '''' app_shop_db) = Inr 1 \<and>
   rows (app_invoices (snd (app_create_invoice ''2025-10-01'' ''Asha''
      [app_line_of ''A'' (Finite 10) (Finite 2)] (Finite 5) '''' app_shop_db))) =
     [\<lparr>ai_id = 1, ai_date = ''2025-10-01'', ai_person_name = ''Asha'', ai_total_amount = Finite 20,
       ai_collection_amount = Finite 5, ai_due_amount = Finite 15, ai_notes = ''''\<rparr>]"
    by (simp add: f sp tot du)
  from app_create_invoice_outcome [of "[app_line_of ''B'' (Finite 10) (Finite 2)]" "Finite 5"
      app_shop_db "''2025-10-01''" "''Asha''" "''''"] nst
  obtain m where raised: "app_create_invoice ''2025-10-01'' ''Asha''
      [app_line_of ''B'' (Finite 10) (Finite 2)] (Finite 5) '''' app_shop_db =
      (Inl (IntegrityError m), app_shop_db)"
    by blast
  have "app_create_invoice ''2025-10-01'' ''Asha'' [app_line_of ''B'' (Finite 10) (Finite 2)]
      (Finite 5) '''' app_shop_db =
     (Inl (IntegrityError ''FOREIGN KEY constraint failed''), app_shop_db)"
    unfolding app_create_invoice_def Let_def tot fsub_or0 du
    by (simp add: app_with_conn_def app_insert_invoice_def app_insert_invoice_line_def
        sql_real_def double_or0_def truthy_float_def truthy_str_def app_line_of_def
        app_shop_db_def app_empty_db_def empty_tbl_def insert_row_def fk_error_def)
  with st ok nst item show ?thesis by blast
qed

end
